(* ===== verification/Prelude.thy ===== *)
theory Prelude
  imports Main "HOL-Library.Sublist"
begin

text \<open>
  Shared vocabulary of the development: an exception-and-state monad in which the
  asynchronous route handler of \<open>src/src/app/api/chat/route.ts\<close> is written (every
  \<open>await\<close> may reject, every rejection unwinds to the one \<open>catch\<close>), splitting a list
  at a separator element (the inverse of joining with a separator, used to read a rendered table
  back), and decimal printing of numbers (JavaScript's \<open>String(n)\<close> on integral
  numbers). The lemmas here are generic; the collection \<open>est_simps\<close> carries the
  monad's evaluation rules into the component proofs.
\<close>

named_theorems est_simps "evaluation rules of the exception-state monad"

section \<open>An exception-state monad\<close>

text \<open>
  A computation reads and updates a state \<open>'s\<close> and either returns a value
  (\<open>Inr\<close>) or raises an error (\<open>Inl\<close>); the state reached when the error is raised
  is kept, as the effects a JavaScript function performed before it threw are kept.
\<close>

type_synonym ('e, 's, 'a) est = "'s \<Rightarrow> ('e + 'a) \<times> 's"

definition returnS :: "'a \<Rightarrow> ('e, 's, 'a) est" where
  "returnS a = (\<lambda>s. (Inr a, s))"

definition throwS :: "'e \<Rightarrow> ('e, 's, 'a) est" where
  "throwS e = (\<lambda>s. (Inl e, s))"

definition liftS :: "'e + 'a \<Rightarrow> ('e, 's, 'a) est" where
  "liftS r = (\<lambda>s. (r, s))"

definition bindS :: "('e, 's, 'a) est \<Rightarrow> ('a \<Rightarrow> ('e, 's, 'b) est) \<Rightarrow> ('e, 's, 'b) est" where
  "bindS m f = (\<lambda>s. case m s of (Inl e, s') \<Rightarrow> (Inl e, s') | (Inr a, s') \<Rightarrow> f a s')"

definition catchS :: "('e, 's, 'a) est \<Rightarrow> ('e \<Rightarrow> 's \<Rightarrow> 'a \<times> 's) \<Rightarrow> 's \<Rightarrow> 'a \<times> 's" where
  "catchS m h = (\<lambda>s. case m s of (Inl e, s') \<Rightarrow> h e s' | (Inr a, s') \<Rightarrow> (a, s'))"

lemma returnS_apply [simp, est_simps]: "returnS a s = (Inr a, s)"
  by (simp add: returnS_def)

lemma throwS_apply [simp, est_simps]: "throwS e s = (Inl e, s)"
  by (simp add: throwS_def)

lemma liftS_apply [simp, est_simps]: "liftS r s = (r, s)"
  by (simp add: liftS_def)

lemma bindS_apply [est_simps]:
  "bindS m f s = (case m s of (Inl e, s') \<Rightarrow> (Inl e, s') | (Inr a, s') \<Rightarrow> f a s')"
  by (simp add: bindS_def)

lemma bindS_returnS [simp, est_simps]: "bindS (returnS a) f = f a"
  by (simp add: bindS_def fun_eq_iff)

lemma bindS_throwS [simp, est_simps]: "bindS (throwS e) f = throwS e"
  by (simp add: bindS_def fun_eq_iff)

lemma bindS_liftS_Inl [simp, est_simps]: "bindS (liftS (Inl e)) f = throwS e"
  by (simp add: bindS_def fun_eq_iff)

lemma bindS_liftS_Inr [simp, est_simps]: "bindS (liftS (Inr a)) f = f a"
  by (simp add: bindS_def fun_eq_iff)

lemma catchS_apply [est_simps]:
  "catchS m h s = (case m s of (Inl e, s') \<Rightarrow> h e s' | (Inr a, s') \<Rightarrow> (a, s'))"
  by (simp add: catchS_def)

lemma bindS_Inr_state:
  "m s = (Inr a, s') \<Longrightarrow> bindS m f s = f a s'"
  by (simp add: bindS_def)

lemma bindS_Inl_state:
  "m s = (Inl e, s') \<Longrightarrow> bindS m f s = (Inl e, s')"
  by (simp add: bindS_def)

text \<open>
  The same sequencing without state, for synchronous code that may throw:
  \<open>bindE\<close> passes a value on or propagates the error, \<open>mapE\<close> is
  \<open>xs.map(f)\<close> for an \<open>f\<close> that may throw (the first element that throws decides).
\<close>

definition bindE :: "'e + 'a \<Rightarrow> ('a \<Rightarrow> 'e + 'b) \<Rightarrow> 'e + 'b" where
  "bindE r f = (case r of Inl e \<Rightarrow> Inl e | Inr a \<Rightarrow> f a)"

lemma bindE_Inl [simp]: "bindE (Inl e) f = Inl e"
  by (simp add: bindE_def)

lemma bindE_Inr [simp]: "bindE (Inr a) f = f a"
  by (simp add: bindE_def)

lemma bindE_eq_Inr_iff:
  "bindE r f = Inr b \<longleftrightarrow> (\<exists>a. r = Inr a \<and> f a = Inr b)"
  by (cases r) simp_all

fun mapE :: "('a \<Rightarrow> 'e + 'b) \<Rightarrow> 'a list \<Rightarrow> 'e + 'b list" where
  "mapE f [] = Inr []"
| "mapE f (x # xs) = bindE (f x) (\<lambda>y. bindE (mapE f xs) (\<lambda>ys. Inr (y # ys)))"

lemma mapE_Inr_iff:
  "mapE f xs = Inr ys \<longleftrightarrow> list_all2 (\<lambda>x y. f x = Inr y) xs ys"
proof (induction xs arbitrary: ys)
  case Nil
  then show ?case by auto
next
  case (Cons x xs)
  then show ?case
    by (cases "f x"; cases "mapE f xs") (auto simp: list_all2_Cons1)
qed

lemma mapE_map: "(\<forall>x \<in> set xs. f x = Inr (g x)) \<Longrightarrow> mapE f xs = Inr (map g xs)"
  by (induction xs) simp_all

lemma mapE_ex_Inr_iff: "(\<exists>ys. mapE f xs = Inr ys) \<longleftrightarrow> (\<forall>x \<in> set xs. \<exists>y. f x = Inr y)"
  by (induction xs) (auto simp: bindE_def split: sum.splits)

lemma those_map_Some:
  "(\<forall>x \<in> set xs. f x = Some (g x)) \<Longrightarrow> those (map f xs) = Some (map g xs)"
  by (induction xs) simp_all

section \<open>Splitting at a separator\<close>

text \<open>
  \<open>split_on c xs\<close> cuts \<open>xs\<close> at every occurrence of \<open>c\<close> (JavaScript's
  \<open>s.split(c)\<close> for a one-character separator): the result is never empty.
\<close>

fun split_on :: "'a \<Rightarrow> 'a list \<Rightarrow> 'a list list" where
  "split_on c [] = [[]]"
| "split_on c (x # xs) =
     (let r = split_on c xs in if x = c then [] # r else (x # hd r) # tl r)"

lemma split_on_not_Nil [simp]: "split_on c xs \<noteq> []"
  by (induction xs) (auto simp: Let_def)

lemma split_on_no_sep: "c \<notin> set xs \<Longrightarrow> split_on c xs = [xs]"
  by (induction xs) (auto simp: Let_def)

lemma split_on_append_sep:
  "c \<notin> set xs \<Longrightarrow> split_on c (xs @ c # ys) = xs # split_on c ys"
  by (induction xs) (auto simp: Let_def)

text \<open>
  \<open>join_with sep xss\<close> concatenates \<open>xss\<close> with \<open>sep\<close> between neighbours,
  the shape of JavaScript's \<open>Array.prototype.join\<close> once the elements are strings.
\<close>

fun join_with :: "'a list \<Rightarrow> 'a list list \<Rightarrow> 'a list" where
  "join_with sep [] = []"
| "join_with sep [x] = x"
| "join_with sep (x # y # ys) = x @ sep @ join_with sep (y # ys)"

lemma join_with_Cons_eq:
  "join_with sep (x # xs) = x @ (if xs = [] then [] else sep @ join_with sep xs)"
  by (cases xs) simp_all

lemma join_with_map_append:
  "join_with sep (map f (xs @ [y])) =
     (if xs = [] then f y else join_with sep (map f xs) @ sep @ f y)"
  by (induction xs) (auto simp: join_with_Cons_eq)

lemma join_with_contains:
  "x \<in> set xs \<Longrightarrow> \<exists>p q. join_with sep xs = p @ x @ q"
proof (induction sep xs rule: join_with.induct)
  case (1 sep)
  then show ?case by simp
next
  case (2 sep y)
  then have "join_with sep [y] = [] @ x @ []" by simp
  then show ?case by blast
next
  case (3 sep y z zs)
  show ?case
  proof (cases "x = y")
    case True
    then have "join_with sep (y # z # zs) = [] @ x @ (sep @ join_with sep (z # zs))" by simp
    then show ?thesis by blast
  next
    case False
    with "3.prems" have "x \<in> set (z # zs)" by simp
    then obtain p q where "join_with sep (z # zs) = p @ x @ q"
      using "3.IH" by blast
    then have "join_with sep (y # z # zs) = (y @ sep @ p) @ x @ q" by simp
    then show ?thesis by blast
  qed
qed

text \<open>Infixes (\<open>sublist\<close> of HOL-Library) of a joined list and of concatenations.\<close>

lemma sublist_join_with: "x \<in> set xs \<Longrightarrow> sublist x (join_with sep xs)"
  unfolding sublist_def by (rule join_with_contains)

lemma sublist_append_after: "sublist x s \<Longrightarrow> sublist x (a @ s)"
  using sublist_order.order.trans [OF _ sublist_append_leftI] by blast

lemma sublist_append_before: "sublist x s \<Longrightarrow> sublist x (s @ b)"
  using sublist_order.order.trans [OF _ sublist_append_rightI] by blast

lemma split_on_join_with:
  assumes "xss \<noteq> []" and "\<forall>xs \<in> set xss. c \<notin> set xs"
  shows "split_on c (join_with [c] xss) = xss"
  using assms
proof (induction "[c]" xss rule: join_with.induct)
  case 1
  then show ?case by simp
next
  case (2 x)
  then show ?case by (simp add: split_on_no_sep)
next
  case (3 x y ys)
  then show ?case by (simp add: split_on_append_sep)
qed

text \<open>Lines each ended by a terminator are the lines joined by it, with an empty last piece.\<close>

lemma concat_terminated_join_with:
  "concat (map (\<lambda>l. l @ [c]) ls) = join_with [c] (ls @ [[]])"
  by (induction ls) (auto simp: join_with_Cons_eq)

lemma set_join_with_subset:
  "set (join_with sep xss) \<subseteq> set sep \<union> (\<Union>xs \<in> set xss. set xs)"
  by (induction sep xss rule: join_with.induct) auto

lemma length_split_on_join_with:
  "xss \<noteq> [] \<Longrightarrow> \<forall>xs \<in> set xss. c \<notin> set xs \<Longrightarrow>
   length (split_on c (join_with [c] xss)) = length xss"
  by (simp add: split_on_join_with)

section \<open>Decimal printing\<close>

text \<open>
  \<open>show_nat\<close> prints a natural number in decimal without leading zeros, as
  JavaScript's \<open>String(n)\<close> does for integral numbers; \<open>show_int\<close> adds the sign.
\<close>

definition decimal_digits :: string where
  "decimal_digits = ''0123456789''"

definition digit_char :: "nat \<Rightarrow> char" where
  "digit_char d = decimal_digits ! d"

fun show_nat :: "nat \<Rightarrow> string" where
  "show_nat n =
     (if n < 10 then [digit_char n] else show_nat (n div 10) @ [digit_char (n mod 10)])"

declare show_nat.simps [simp del]

definition show_int :: "int \<Rightarrow> string" where
  "show_int i = (if i < 0 then CHR ''-'' # show_nat (nat (- i)) else show_nat (nat i))"

definition is_digit_char :: "char \<Rightarrow> bool" where
  "is_digit_char ch \<longleftrightarrow> ch \<in> set decimal_digits"

lemma is_digit_char_digit_char: "d < 10 \<Longrightarrow> is_digit_char (digit_char d)"
  unfolding is_digit_char_def digit_char_def
  by (rule nth_mem) (simp add: decimal_digits_def)

text \<open>Evaluation of printed numbers on concrete inputs.\<close>

lemmas show_eval = show_int_def show_nat.simps digit_char_def decimal_digits_def

lemma show_nat_digits: "\<forall>ch \<in> set (show_nat n). is_digit_char ch"
proof (induction n rule: show_nat.induct)
  case (1 n)
  then show ?case
    by (subst show_nat.simps) (auto simp: is_digit_char_digit_char)
qed

lemma show_nat_not_Nil [simp]: "show_nat n \<noteq> []"
  by (subst show_nat.simps) simp

lemma show_nat_small [simp]: "n < 10 \<Longrightarrow> show_nat n = [digit_char n]"
  by (simp add: show_nat.simps)

end
