(* ===== verification/Js_Values.thy ===== *)
theory Js_Values
  imports Prelude
begin

text \<open>
  The JavaScript semantics the route handler relies on, for the JSON values that reach
  it from the request body, the language model and the database: truthiness (the
  \<open>!x\<close>, \<open>x || d\<close> and \<open>if (x)\<close> of \<open>route.ts\<close>), property access (which throws a
  \<open>TypeError\<close> on \<open>undefined\<close> and \<open>null\<close>), optional indexing \<open>x?.[i]\<close>, the
  string conversion of template literals and of \<open>Array.prototype.join\<close>,
  \<open>String.prototype.trim\<close> and \<open>s.replace(/_/g, " ")\<close>. Numbers are integral
  (\<open>int\<close>): the handler only adds offsets and prints counts, far below \<open>2^53\<close>;
  \<open>NaN\<close> and fractional numbers are not modelled. Characters are bytes, so the
  whitespace that \<open>trim\<close> removes is the ASCII part of JavaScript's set.
\<close>

section \<open>Values and exceptions\<close>

datatype jsval =
    JUndef
  | JNull
  | JBool bool
  | JNum int
  | JStr string
  | JArr "jsval list"
  | JObj "(string \<times> jsval) list"

text \<open>
  The exceptions the code can observe: a \<open>TypeError\<close> or \<open>URIError\<close> raised by
  the language itself, and the rejection of a collaborator's promise (the language model,
  the query executor, the database client), with its message.
\<close>

datatype exn =
    TypeError string
  | URIError string
  | Rejected string

section \<open>Truthiness and the logical or\<close>

fun js_truthy :: "jsval \<Rightarrow> bool" where
  "js_truthy JUndef = False"
| "js_truthy JNull = False"
| "js_truthy (JBool b) = b"
| "js_truthy (JNum n) = (n \<noteq> 0)"
| "js_truthy (JStr s) = (s \<noteq> [])"
| "js_truthy (JArr _) = True"
| "js_truthy (JObj _) = True"

definition js_or :: "jsval \<Rightarrow> jsval \<Rightarrow> jsval" where
  "js_or a b = (if js_truthy a then a else b)"

lemma js_or_truthy [simp]: "js_truthy a \<Longrightarrow> js_or a b = a"
  by (simp add: js_or_def)

lemma js_or_falsy [simp]: "\<not> js_truthy a \<Longrightarrow> js_or a b = b"
  by (simp add: js_or_def)

section \<open>String conversion\<close>

text \<open>
  \<open>js_to_string\<close> is the conversion a template literal \<open>`${v}`\<close> applies. Inside an
  array, \<open>join\<close> prints \<open>undefined\<close> and \<open>null\<close> as the empty string; an array
  converts as its elements joined with a comma; a plain object as \<open>[object Object]\<close>.
\<close>

fun js_to_string :: "jsval \<Rightarrow> string" where
  "js_to_string JUndef = ''undefined''"
| "js_to_string JNull = ''null''"
| "js_to_string (JBool b) = (if b then ''true'' else ''false'')"
| "js_to_string (JNum n) = show_int n"
| "js_to_string (JStr s) = s"
| "js_to_string (JArr xs) =
     join_with '','' (map (\<lambda>x. if x = JUndef \<or> x = JNull then [] else js_to_string x) xs)"
| "js_to_string (JObj _) = ''[object Object]''"

definition js_join_elem :: "jsval \<Rightarrow> string" where
  "js_join_elem x = (if x = JUndef \<or> x = JNull then [] else js_to_string x)"

definition js_join :: "string \<Rightarrow> jsval list \<Rightarrow> string" where
  "js_join sep xs = join_with sep (map js_join_elem xs)"

lemma js_to_string_JArr: "js_to_string (JArr xs) = js_join '','' xs"
proof -
  have "js_join_elem = (\<lambda>x. if x = JUndef \<or> x = JNull then [] else js_to_string x)"
    by (simp add: fun_eq_iff js_join_elem_def)
  then show ?thesis by (simp add: js_join_def)
qed

lemma js_join_elem_truthy [simp]: "js_truthy x \<Longrightarrow> js_join_elem x = js_to_string x"
  by (cases x) (simp_all add: js_join_elem_def)

lemma js_join_elem_JStr [simp]: "js_join_elem (JStr s) = s"
  by (simp add: js_join_elem_def)

section \<open>Property access\<close>

text \<open>
  \<open>js_get v k\<close> is \<open>v.k\<close> (and \<open>v[k]\<close> for a string key): reading a property of
  \<open>undefined\<close> or \<open>null\<close> throws; an absent key reads as \<open>undefined\<close>; arrays and
  strings have a \<open>length\<close>. A JSON object is an association list; \<open>JSON.parse\<close> keeps
  one entry per key, and the first binding of a key is the one read.
\<close>

fun js_get :: "jsval \<Rightarrow> string \<Rightarrow> exn + jsval" where
  "js_get JUndef k = Inl (TypeError (''Cannot read properties of undefined (reading '' @ k @ '')''))"
| "js_get JNull k = Inl (TypeError (''Cannot read properties of null (reading '' @ k @ '')''))"
| "js_get (JObj kvs) k = Inr (case map_of kvs k of Some v \<Rightarrow> v | None \<Rightarrow> JUndef)"
| "js_get (JArr xs) k = Inr (if k = ''length'' then JNum (int (length xs)) else JUndef)"
| "js_get (JStr s) k = Inr (if k = ''length'' then JNum (int (length s)) else JUndef)"
| "js_get (JNum _) k = Inr JUndef"
| "js_get (JBool _) k = Inr JUndef"

text \<open>\<open>js_opt_index v i\<close> is \<open>v?.[i]\<close>: \<open>undefined\<close> when \<open>v\<close> is nullish or the index is out of range.\<close>

fun js_opt_index :: "jsval \<Rightarrow> nat \<Rightarrow> jsval" where
  "js_opt_index JUndef i = JUndef"
| "js_opt_index JNull i = JUndef"
| "js_opt_index (JArr xs) i = (if i < length xs then xs ! i else JUndef)"
| "js_opt_index (JStr s) i = (if i < length s then JStr [s ! i] else JUndef)"
| "js_opt_index (JObj kvs) i = (case map_of kvs (show_nat i) of Some v \<Rightarrow> v | None \<Rightarrow> JUndef)"
| "js_opt_index (JNum _) i = JUndef"
| "js_opt_index (JBool _) i = JUndef"


lemma js_get_defined: "v \<noteq> JUndef \<Longrightarrow> v \<noteq> JNull \<Longrightarrow> \<exists>r. js_get v k = Inr r"
  by (cases v) simp_all

section \<open>String methods\<close>

text \<open>The whitespace \<open>String.prototype.trim\<close> removes, restricted to ASCII.\<close>

definition js_space :: "char \<Rightarrow> bool" where
  "js_space c \<longleftrightarrow> c \<in> {CHR 0x09, CHR 0x0A, CHR 0x0B, CHR 0x0C, CHR 0x0D, CHR 0x20}"

definition js_trim :: "string \<Rightarrow> string" where
  "js_trim s = rev (dropWhile js_space (rev (dropWhile js_space s)))"

text \<open>
  \<open>v.replace(/_/g, " ")\<close>: defined on strings; on any other value the method is
  missing and the call throws a \<open>TypeError\<close>.
\<close>

fun js_replace_underscores :: "jsval \<Rightarrow> exn + string" where
  "js_replace_underscores (JStr s) = Inr (map (\<lambda>c. if c = CHR ''_'' then CHR '' '' else c) s)"
| "js_replace_underscores v = Inl (TypeError ''replace is not a function'')"

lemma js_trim_no_space_ends:
  assumes "s \<noteq> []" and "\<not> js_space (hd s)" and "\<not> js_space (last s)"
  shows "js_trim s = s"
proof -
  from assms(1,2) have "dropWhile js_space s = s"
    by (cases s) simp_all
  moreover from assms(1,3) have "dropWhile js_space (rev s) = rev s"
    by (cases "rev s") (simp_all add: last_rev [symmetric] hd_rev)
  ultimately show ?thesis by (simp add: js_trim_def)
qed

lemma js_trim_Nil [simp]: "js_trim [] = []"
  by (simp add: js_trim_def)

section \<open>decodeURIComponent\<close>

text \<open>
  \<open>decodeURIComponent\<close> after ECMAScript's \<open>Decode\<close>: every \<open>%XX\<close> is a byte; a
  byte below 0x80 stands for itself; a lead byte announces one to three continuation
  escapes, each of the form \<open>10xxxxxx\<close>; the whole sequence must be the shortest UTF-8
  encoding of a code point that is neither a surrogate nor above U+10FFFF. Anything else
  throws a \<open>URIError\<close>. Characters are bytes, so a decoded code point is kept as its
  UTF-8 bytes.
\<close>

definition hex_digit_values :: "(char \<times> nat) list" where
  "hex_digit_values =
    [(CHR ''0'', 0), (CHR ''1'', 1), (CHR ''2'', 2), (CHR ''3'', 3), (CHR ''4'', 4), (CHR ''5'', 5),
     (CHR ''6'', 6), (CHR ''7'', 7), (CHR ''8'', 8), (CHR ''9'', 9), (CHR ''a'', 10), (CHR ''b'', 11),
     (CHR ''c'', 12), (CHR ''d'', 13), (CHR ''e'', 14), (CHR ''f'', 15), (CHR ''A'', 10), (CHR ''B'', 11),
     (CHR ''C'', 12), (CHR ''D'', 13), (CHR ''E'', 14), (CHR ''F'', 15)]"

definition hex_val :: "char \<Rightarrow> nat option" where
  "hex_val c = map_of hex_digit_values c"

definition hex_byte :: "char \<Rightarrow> char \<Rightarrow> nat option" where
  "hex_byte h l = (case (hex_val h, hex_val l) of
                     (Some a, Some b) \<Rightarrow> Some (16 * a + b)
                   | _ \<Rightarrow> None)"

definition utf8_lead_ones :: "nat \<Rightarrow> nat" where
  "utf8_lead_ones b =
     (if b < 128 then 0 else if b < 192 then 1 else if b < 224 then 2
      else if b < 240 then 3 else if b < 248 then 4 else 5)"

definition utf8_shortest :: "nat list \<Rightarrow> bool" where
  "utf8_shortest bs =
     (case bs of
        [b0, b1] \<Rightarrow> 194 \<le> b0
      | [b0, b1, b2] \<Rightarrow> (b0 \<noteq> 224 \<or> 160 \<le> b1) \<and> (b0 \<noteq> 237 \<or> b1 \<le> 159)
      | [b0, b1, b2, b3] \<Rightarrow> b0 \<le> 244 \<and> (b0 \<noteq> 240 \<or> 144 \<le> b1) \<and> (b0 \<noteq> 244 \<or> b1 \<le> 143)
      | _ \<Rightarrow> False)"

definition uri_error :: "exn + string" where
  "uri_error = Inl (URIError ''URI malformed'')"

text \<open>
  \<open>uri_decode oct k s\<close>: \<open>k\<close> continuation escapes are still due for the octets
  \<open>oct\<close> of a multi-byte sequence.
\<close>

fun uri_decode :: "nat list \<Rightarrow> nat \<Rightarrow> string \<Rightarrow> exn + string" where
  "uri_decode oct 0 [] = Inr []"
| "uri_decode oct (Suc k) [] = uri_error"
| "uri_decode oct 0 (c # cs) =
     (if c \<noteq> CHR ''%'' then map_sum id (Cons c) (uri_decode [] 0 cs)
      else (case cs of
              h # l # rest \<Rightarrow>
                (case hex_byte h l of
                   None \<Rightarrow> uri_error
                 | Some b \<Rightarrow>
                     if b < 128 then map_sum id (Cons (char_of b)) (uri_decode [] 0 rest)
                     else if utf8_lead_ones b = 1 \<or> 4 < utf8_lead_ones b then uri_error
                     else uri_decode [b] (utf8_lead_ones b - 1) rest)
            | _ \<Rightarrow> uri_error))"
| "uri_decode oct (Suc k) (c # cs) =
     (if c \<noteq> CHR ''%'' then uri_error
      else (case cs of
              h # l # rest \<Rightarrow>
                (case hex_byte h l of
                   None \<Rightarrow> uri_error
                 | Some b \<Rightarrow>
                     if utf8_lead_ones b \<noteq> 1 then uri_error
                     else if k = 0
                     then (if utf8_shortest (oct @ [b])
                           then map_sum id (\<lambda>r. map char_of (oct @ [b]) @ r) (uri_decode [] 0 rest)
                           else uri_error)
                     else uri_decode (oct @ [b]) k rest)
            | _ \<Rightarrow> uri_error))"

definition js_decode_uri_component :: "string \<Rightarrow> exn + string" where
  "js_decode_uri_component s = uri_decode [] 0 s"

text \<open>A string without \<open>%\<close> decodes to itself.\<close>

lemma uri_decode_no_percent: "CHR ''%'' \<notin> set s \<Longrightarrow> uri_decode [] 0 s = Inr s"
  by (induction s) auto

lemma js_decode_uri_component_plain:
  "CHR ''%'' \<notin> set s \<Longrightarrow> js_decode_uri_component s = Inr s"
  by (simp add: js_decode_uri_component_def uri_decode_no_percent)

text \<open>A prefix without \<open>%\<close> is copied, and decoding goes on after it.\<close>

lemma uri_decode_plain_prefix:
  "CHR ''%'' \<notin> set pre \<Longrightarrow>
   uri_decode [] 0 (pre @ s) =
     (case uri_decode [] 0 s of Inl e \<Rightarrow> Inl e | Inr r \<Rightarrow> Inr (pre @ r))"
  by (induction pre) (auto split: sum.split)

text \<open>A \<open>%\<close> not followed by two hexadecimal digits is a malformed escape.\<close>

lemma uri_decode_bad_escape:
  assumes "\<forall>h l r. post = h # l # r \<longrightarrow> hex_byte h l = None"
  shows "uri_decode [] 0 (CHR ''%'' # post) = uri_error"
  using assms by (cases post rule: remdups_adj.cases) auto

end
