(* ===== verification/Table_Format.thy ===== *)
theory Table_Format
  imports Js_Values
begin

text \<open>
  \<open>formatPropertiesTable\<close> of \<open>src/src/app/api/chat/route.ts\<close> (lines 161--182):
  the markdown table with the columns Name, Address and Owner that the assistant's
  reply carries. Each record is a JSON value; its three cells are \<open>p.name || "-"\<close>,
  \<open>p.address || "-"\<close>, \<open>p.owner || "-"\<close>, so a record that is \<open>null\<close> makes the
  \<open>map\<close> throw. The lines are accumulated by \<open>forEach\<close>, modelled as the
  \<open>foldl\<close> it is. The theory proves the shape of the output (header, separator, one line
  per record in order), the dash for a missing or falsy field, that the accumulation is a
  concatenation, and that the table reads back to its cells when no cell contains a
  \<open>|\<close> or a line break (\<open>parse_table\<close>, an abstract reader written for the proof).
\<close>

section \<open>The formatter\<close>

definition table_headers :: "string list" where
  "table_headers = [''Name'', ''Address'', ''Owner'']"

text \<open>One markdown line: \<open>`| ${cells.join(" | ")} |\n`\<close>.\<close>

definition md_line :: "jsval list \<Rightarrow> string" where
  "md_line cells = ''| '' @ js_join '' | '' cells @ '' |'' @ ''\<newline>''"

text \<open>\<open>p => [p.name || "-", p.address || "-", p.owner || "-"]\<close>\<close>

definition property_row :: "jsval \<Rightarrow> exn + jsval list" where
  "property_row p =
     bindE (js_get p ''name'') (\<lambda>n.
     bindE (js_get p ''address'') (\<lambda>a.
     bindE (js_get p ''owner'') (\<lambda>ow.
       Inr [js_or n (JStr ''-''), js_or a (JStr ''-''), js_or ow (JStr ''-'')])))"

definition format_properties_table :: "jsval list \<Rightarrow> exn + string" where
  "format_properties_table properties =
     (if properties = [] then Inr []
      else bindE (mapE property_row properties) (\<lambda>rows.
        let table = md_line (map JStr table_headers)
                    @ md_line (map (\<lambda>_. JStr ''-'') table_headers)
        in Inr (foldl (\<lambda>t row. t @ md_line row) table rows)))"

section \<open>Reading a table back\<close>

text \<open>
  An abstract reader for the tables the formatter writes, used to state that no
  information of the three columns is lost: a line is split at \<open>|\<close>, and each cell
  loses the one space of padding on either side.
\<close>

definition strip_pad :: "string \<Rightarrow> string option" where
  "strip_pad s =
     (case s of
        c # r \<Rightarrow> if c = CHR '' '' \<and> r \<noteq> [] \<and> last r = CHR '' '' then Some (butlast r) else None
      | [] \<Rightarrow> None)"

definition parse_md_line :: "string \<Rightarrow> string list option" where
  "parse_md_line l =
     (case split_on (CHR ''|'') l of
        [] # ps \<Rightarrow> if ps \<noteq> [] \<and> last ps = [] then those (map strip_pad (butlast ps)) else None
      | _ \<Rightarrow> None)"

definition parse_table :: "string \<Rightarrow> string list list option" where
  "parse_table t =
     (case split_on (CHR ''\<newline>'') t of
        h # d # rest \<Rightarrow>
          if parse_md_line h = Some table_headers \<and> parse_md_line d = Some [''-'', ''-'', ''-'']
             \<and> rest \<noteq> [] \<and> last rest = []
          then those (map parse_md_line (butlast rest)) else None
      | _ \<Rightarrow> None)"

text \<open>A cell reads back when it holds neither a column bar nor a line break.\<close>

definition clean_cell :: "string \<Rightarrow> bool" where
  "clean_cell c \<longleftrightarrow> CHR ''|'' \<notin> set c \<and> CHR ''\<newline>'' \<notin> set c"

section \<open>Cells and lines\<close>

text \<open>The text of one cell: the value or, when it is falsy, a dash.\<close>

definition cell_text :: "jsval \<Rightarrow> string" where
  "cell_text v = js_to_string (js_or v (JStr ''-''))"

text \<open>What a record displays, for any value that is not nullish.\<close>

definition display_cells :: "jsval \<Rightarrow> string list" where
  "display_cells p =
     map (\<lambda>k. cell_text (case js_get p k of Inr v \<Rightarrow> v | Inl _ \<Rightarrow> JUndef))
       [''name'', ''address'', ''owner'']"

definition md_text_line :: "string list \<Rightarrow> string" where
  "md_text_line cells = ''| '' @ join_with '' | '' cells @ '' |''"

definition nullish :: "jsval \<Rightarrow> bool" where
  "nullish v \<longleftrightarrow> v = JUndef \<or> v = JNull"

lemma cell_truthy: "js_truthy (js_or v (JStr ''-''))"
  by (simp add: js_or_def)

lemma js_join_truthy:
  assumes "\<forall>x \<in> set xs. js_truthy x"
  shows "js_join sep xs = join_with sep (map js_to_string xs)"
proof -
  from assms have "map js_join_elem xs = map js_to_string xs"
    by (induction xs) simp_all
  then show ?thesis by (simp only: js_join_def)
qed

lemma property_row_ok:
  assumes "\<not> nullish p"
  shows "property_row p =
    Inr (map (\<lambda>k. js_or (case js_get p k of Inr v \<Rightarrow> v | Inl _ \<Rightarrow> JUndef) (JStr ''-''))
           [''name'', ''address'', ''owner''])"
  using assms by (cases p) (simp_all add: property_row_def nullish_def)

lemma property_row_nullish: "nullish p \<Longrightarrow> \<exists>e. property_row p = Inl e"
  by (auto simp: property_row_def nullish_def)

lemma md_line_row:
  assumes "\<not> nullish p"
  shows "property_row p = Inr row \<Longrightarrow> md_line row = md_text_line (display_cells p) @ ''\<newline>''"
  using assms
  by (auto simp: property_row_ok md_line_def md_text_line_def display_cells_def cell_text_def
        js_join_truthy cell_truthy)

lemma md_line_strings:
  "md_line (map JStr xs) = md_text_line xs @ ''\<newline>''"
proof -
  have "js_join '' | '' (map JStr xs) = join_with '' | '' xs"
    by (simp add: js_join_def comp_def)
  then show ?thesis by (simp add: md_line_def md_text_line_def)
qed

text \<open>The \<open>forEach\<close> accumulation is the concatenation of the lines.\<close>

lemma foldl_append_lines:
  "foldl (\<lambda>t row. t @ f row) t0 rows = t0 @ concat (map f rows)"
  by (induction rows arbitrary: t0) simp_all

lemma format_properties_table_Nil: "format_properties_table [] = Inr []"
  by (simp add: format_properties_table_def)

text \<open>The output on a page of records none of which is nullish.\<close>

lemma format_properties_table_eq:
  assumes "ps \<noteq> []" and "\<forall>p \<in> set ps. \<not> nullish p"
  shows "format_properties_table ps =
    Inr (md_text_line table_headers @ ''\<newline>'' @ md_text_line [''-'', ''-'', ''-''] @ ''\<newline>''
         @ concat (map (\<lambda>p. md_text_line (display_cells p) @ ''\<newline>'') ps))"
proof -
  obtain rows where rows: "mapE property_row ps = Inr rows"
    using assms(2) mapE_ex_Inr_iff [of property_row ps]
    by (auto simp: property_row_ok)
  then have la: "list_all2 (\<lambda>p r. property_row p = Inr r) ps rows"
    by (simp add: mapE_Inr_iff)
  from la assms(2) have "map md_line rows = map (\<lambda>p. md_text_line (display_cells p) @ ''\<newline>'') ps"
    by (induction rule: list_all2_induct) (simp_all add: md_line_row)
  moreover have "md_line (map (\<lambda>_. JStr ''-'') table_headers) =
      md_text_line [''-'', ''-'', ''-''] @ ''\<newline>''"
    using md_line_strings [of "[''-'', ''-'', ''-'']"] by (simp add: table_headers_def)
  ultimately show ?thesis
    using assms(1) rows
    by (simp add: format_properties_table_def foldl_append_lines md_line_strings)
qed

section \<open>Line structure and read-back\<close>

definition pad_cell :: "string \<Rightarrow> string" where
  "pad_cell c = '' '' @ c @ '' ''"

lemma strip_pad_pad_cell [simp]: "strip_pad (pad_cell c) = Some c"
  by (simp add: strip_pad_def pad_cell_def butlast_append)

lemma join_bar_pad:
  "cs \<noteq> [] \<Longrightarrow> join_with ''|'' (map pad_cell cs @ [[]]) = '' '' @ join_with '' | '' cs @ '' |''"
proof (induction cs)
  case Nil
  then show ?case by simp
next
  case (Cons c cs)
  then show ?case
    by (cases cs) (simp_all add: pad_cell_def join_with_Cons_eq)
qed

lemma md_text_line_bars:
  "cs \<noteq> [] \<Longrightarrow> md_text_line cs = join_with ''|'' ([] # map pad_cell cs @ [[]])"
  by (simp add: md_text_line_def join_bar_pad join_with_Cons_eq)

lemma parse_md_line_md_text_line:
  assumes "cs \<noteq> []" and "\<forall>c \<in> set cs. clean_cell c"
  shows "parse_md_line (md_text_line cs) = Some cs"
proof -
  have "\<forall>x \<in> set ([] # map pad_cell cs @ [[]]). CHR ''|'' \<notin> set x"
    using assms(2) by (auto simp: clean_cell_def pad_cell_def)
  then have "split_on (CHR ''|'') (md_text_line cs) = [] # map pad_cell cs @ [[]]"
    using assms(1) by (simp add: md_text_line_bars split_on_join_with)
  moreover have "those (map strip_pad (map pad_cell cs)) = Some cs"
    by (induction cs) simp_all
  ultimately show ?thesis
    using assms(1) by (simp add: parse_md_line_def butlast_append)
qed

lemma md_text_line_no_newline:
  assumes "\<forall>c \<in> set cs. CHR ''\<newline>'' \<notin> set c"
  shows "CHR ''\<newline>'' \<notin> set (md_text_line cs)"
proof -
  have "set (join_with '' | '' cs) \<subseteq> set '' | '' \<union> (\<Union>c \<in> set cs. set c)"
    by (rule set_join_with_subset)
  with assms show ?thesis
    by (auto simp: md_text_line_def)
qed

lemma display_cells_length [simp]: "length (display_cells p) = 3"
  by (simp add: display_cells_def)

lemma display_cells_not_Nil [simp]: "display_cells p \<noteq> []"
  by (simp add: display_cells_def)




text \<open>The lines of a formatted table, as \<open>t.split("\n")\<close> yields them.\<close>

lemma format_properties_table_lines:
  assumes "ps \<noteq> []" and "\<forall>p \<in> set ps. \<not> nullish p"
    and "\<forall>p \<in> set ps. \<forall>c \<in> set (display_cells p). CHR ''\<newline>'' \<notin> set c"
  shows "\<exists>t. format_properties_table ps = Inr t \<and>
    split_on (CHR ''\<newline>'') t =
      md_text_line table_headers # md_text_line [''-'', ''-'', ''-'']
      # map (\<lambda>p. md_text_line (display_cells p)) ps @ [[]]"
proof -
  let ?ls = "md_text_line table_headers # md_text_line [''-'', ''-'', ''-'']
             # map (\<lambda>p. md_text_line (display_cells p)) ps"
  have hd_nl: "\<forall>c \<in> set table_headers. CHR ''\<newline>'' \<notin> set c"
    by (simp add: table_headers_def)
  let ?t = "md_text_line table_headers @ ''\<newline>'' @ md_text_line [''-'', ''-'', ''-''] @ ''\<newline>''
            @ concat (map (\<lambda>p. md_text_line (display_cells p) @ ''\<newline>'') ps)"
  have fmt: "format_properties_table ps = Inr ?t"
    using assms(1,2) by (rule format_properties_table_eq)
  have "?t = concat (map (\<lambda>l. l @ [CHR ''\<newline>'']) ?ls)"
    by (simp add: comp_def)
  also have "\<dots> = join_with [CHR ''\<newline>''] (?ls @ [[]])"
    by (rule concat_terminated_join_with)
  finally have t_eq: "?t = join_with [CHR ''\<newline>''] (?ls @ [[]])" .
  have "\<forall>l \<in> set (?ls @ [[]]). CHR ''\<newline>'' \<notin> set l"
    using assms(3) hd_nl md_text_line_no_newline by auto
  then have "split_on (CHR ''\<newline>'') ?t = ?ls @ [[]]"
    unfolding t_eq by (intro split_on_join_with) simp_all
  with fmt show ?thesis by simp
qed

text \<open>
  C16: formatting a non-empty page whose cells hold no column bar and no line break loses
  nothing: reading the table back gives, for every record in the order given, its name,
  address and owner cells (a dash where the field is missing or falsy).
\<close>

theorem format_properties_table_roundtrip:
  assumes "ps \<noteq> []" and "\<forall>p \<in> set ps. \<not> nullish p"
    and "\<forall>p \<in> set ps. \<forall>c \<in> set (display_cells p). clean_cell c"
  shows "\<exists>t. format_properties_table ps = Inr t \<and> parse_table t = Some (map display_cells ps)"
proof -
  from assms(3) have nl: "\<forall>p \<in> set ps. \<forall>c \<in> set (display_cells p). CHR ''\<newline>'' \<notin> set c"
    by (simp add: clean_cell_def)
  from format_properties_table_lines [OF assms(1,2) nl] obtain t where
    fmt: "format_properties_table ps = Inr t" and
    lines: "split_on (CHR ''\<newline>'') t =
      md_text_line table_headers # md_text_line [''-'', ''-'', ''-'']
      # map (\<lambda>p. md_text_line (display_cells p)) ps @ [[]]"
    by blast
  have hdr: "parse_md_line (md_text_line table_headers) = Some table_headers"
    by (rule parse_md_line_md_text_line) (simp_all add: table_headers_def clean_cell_def)
  have sep: "parse_md_line (md_text_line [''-'', ''-'', ''-'']) = Some [''-'', ''-'', ''-'']"
    by (rule parse_md_line_md_text_line) (simp_all add: clean_cell_def)
  have rows: "those (map parse_md_line (map (\<lambda>p. md_text_line (display_cells p)) ps)) =
      Some (map display_cells ps)"
    unfolding map_map comp_def
    using assms(3) by (intro those_map_Some) (simp add: parse_md_line_md_text_line)
  show ?thesis
    using fmt lines hdr sep rows by (simp add: parse_table_def butlast_append)
qed

theorem format_properties_table_roundtrip_witness:
  "\<exists>t. format_properties_table [JObj [(''name'', JStr ''A''), (''owner'', JStr ''X'')]] = Inr t \<and>
       parse_table t = Some [[''A'', ''-'', ''X'']]"
  using format_properties_table_roundtrip [of "[JObj [(''name'', JStr ''A''), (''owner'', JStr ''X'')]]"]
  by (simp add: nullish_def display_cells_def cell_text_def clean_cell_def)

text \<open>
  C17: the formatter throws exactly when some record of the page is \<open>null\<close> or
  \<open>undefined\<close> (reading \<open>p.name\<close> of it); every other page is formatted.
\<close>

theorem format_properties_table_throws_iff:
  "(\<exists>e. format_properties_table ps = Inl e) \<longleftrightarrow> (\<exists>p \<in> set ps. nullish p)"
proof
  assume "\<exists>e. format_properties_table ps = Inl e"
  then obtain e where e: "format_properties_table ps = Inl e" by blast
  show "\<exists>p \<in> set ps. nullish p"
  proof (rule ccontr)
    assume "\<not> (\<exists>p \<in> set ps. nullish p)"
    then have "\<forall>p \<in> set ps. \<not> nullish p" by blast
    with e show False
      by (cases "ps = []") (simp_all add: format_properties_table_Nil format_properties_table_eq)
  qed
next
  assume "\<exists>p \<in> set ps. nullish p"
  then obtain p where p: "p \<in> set ps" "nullish p" by blast
  from p(2) obtain e where "property_row p = Inl e"
    using property_row_nullish by blast
  with p(1) have "\<nexists>ys. mapE property_row ps = Inr ys"
    unfolding mapE_ex_Inr_iff by force
  moreover from p(1) have "ps \<noteq> []" by auto
  ultimately show "\<exists>e. format_properties_table ps = Inl e"
    by (auto simp: format_properties_table_def bindE_def split: sum.splits)
qed

theorem format_properties_table_throws_iff_witness:
  "(\<exists>e. format_properties_table [JObj [], JNull] = Inl e) \<and>
   \<not> (\<exists>e. format_properties_table [JObj []] = Inl e)"
  using format_properties_table_throws_iff [of "[JObj [], JNull]"]
    format_properties_table_throws_iff [of "[JObj []]"]
  by (simp add: nullish_def)



end
