(* ===== verification/Chat_Route.thy ===== *)
theory Chat_Route
  imports Table_Format
begin

text \<open>
  The \<open>POST\<close> handler of \<open>src/src/app/api/chat/route.ts\<close> (lines 13--159). Its
  collaborators (the Supabase client's \<open>auth.getUser\<close> and \<open>from("messages").insert\<close>,
  \<open>request.json\<close>, \<open>getPropertiesSchema\<close>, \<open>generateSchemaDocumentation\<close>,
  \<open>parseAndGenerateResponse\<close>, \<open>getPropertiesWithFallback\<close> and
  \<open>getAggregationData\<close>) live outside the repository's sources; they are the fields of
  an environment record \<open>chat_env\<close>, each returning its value or the rejection of its
  promise, so every lemma holds for every behaviour of them. The persistent state is the
  \<open>messages\<close> table, in insertion order, and the server log. The handler is written in
  the exception-state monad of the prelude: its \<open>try\<close> block is \<open>chat_turn\<close>, the
  whole function with its \<open>catch\<close> is \<open>chat_post\<close>.
\<close>

section \<open>Data\<close>

record schema_attr =
  internalName :: string
  displayName :: string

text \<open>The language model's answer: each field is whatever JSON it produced.\<close>

record parsed_query =
  pq_intent :: jsval
  pq_filters :: jsval
  pq_response_text :: jsval

record query_result =
  qr_properties :: "jsval list"
  qr_total :: int

text \<open>
  The destructured request body \<open>{message, conversationId, offset = 0}\<close>; the offset is
  a number when present.
\<close>

record chat_body =
  body_message :: jsval
  body_conversationId :: jsval
  body_offset :: "int option"

datatype role = RoleUser | RoleAssistant

record msg_metadata =
  md_intent :: jsval
  full_results_data :: "jsval list"
  has_more :: bool
  current_offset :: int
  total_results :: nat

record msg_row =
  conversation_id :: jsval
  msg_role :: role
  content :: jsval
  metadata :: "msg_metadata option"

text \<open>
  What an \<open>insert\<close> does: the row is stored, or the client returns an error object
  (\<open>{error}\<close>, nothing stored), or its promise rejects.
\<close>

datatype insert_result = Inserted | InsertError string | InsertRejected string

record chat_state =
  messages :: "msg_row list"
  server_log :: "string list"

record chat_env =
  auth_user :: "exn + string option"
  request_json :: "exn + chat_body"
  db_insert :: "msg_row \<Rightarrow> msg_row list \<Rightarrow> insert_result"
  properties_schema :: "exn + schema_attr list"
  schema_documentation :: "schema_attr list \<Rightarrow> string"
  parse_and_generate :: "jsval \<Rightarrow> string \<Rightarrow> exn + parsed_query"
  properties_with_fallback :: "jsval \<Rightarrow> int \<Rightarrow> nat \<Rightarrow> exn + query_result"
  aggregation_data :: "jsval \<Rightarrow> exn + jsval"

text \<open>The HTTP answer: an error body with its status, or the 200 reply.\<close>

datatype chat_response =
    ErrorResponse nat string
  | ChatReply msg_row string bool int

type_synonym 'a chat_m = "(exn, chat_state, 'a) est"

section \<open>Effects on the message table and the log\<close>

definition insert_message :: "chat_env \<Rightarrow> msg_row \<Rightarrow> string option chat_m" where
  "insert_message env row = (\<lambda>s.
     case db_insert env row (messages s) of
       Inserted \<Rightarrow> (Inr None, s\<lparr>messages := messages s @ [row]\<rparr>)
     | InsertError msg \<Rightarrow> (Inr (Some msg), s)
     | InsertRejected msg \<Rightarrow> (Inl (Rejected msg), s))"

definition log_error :: "string \<Rightarrow> unit chat_m" where
  "log_error msg = (\<lambda>s. (Inr (), s\<lparr>server_log := server_log s @ [msg]\<rparr>))"

section \<open>The reply for each intent\<close>

definition lookup_no_match_text :: string where
  "lookup_no_match_text =
     ''I couldn't find any properties matching your query. Could you please rephrase? Or I can help you explore what properties are available.''"

definition location_no_match_text :: string where
  "location_no_match_text =
     ''No properties found in that location. Would you like to see all available properties or search by a different location?''"

text \<open>\<open>property_lookup\<close> (lines 64--78): one page of five records from \<open>offset\<close>.\<close>

definition property_lookup_reply ::
  "chat_env \<Rightarrow> parsed_query \<Rightarrow> int \<Rightarrow> exn + (jsval \<times> jsval list \<times> bool)" where
  "property_lookup_reply env pq offset =
     bindE (properties_with_fallback env (pq_filters pq) offset 5) (\<lambda>result.
       let allResults = qr_properties result;
           hasMore = offset + 5 < qr_total result
       in Inr (if allResults = [] then JStr lookup_no_match_text
               else JStr (''Found '' @ show_int (qr_total result) @ '' property/properties. Showing ''
                          @ show_nat (min 5 (length allResults)) @ '' of ''
                          @ show_int (qr_total result) @ ''.''),
               allResults, hasMore))"

text \<open>\<open>location_filter\<close> (lines 79--92): the same query, other wording.\<close>

definition location_filter_reply ::
  "chat_env \<Rightarrow> parsed_query \<Rightarrow> int \<Rightarrow> exn + (jsval \<times> jsval list \<times> bool)" where
  "location_filter_reply env pq offset =
     bindE (properties_with_fallback env (pq_filters pq) offset 5) (\<lambda>result.
       let allResults = qr_properties result;
           hasMore = offset + 5 < qr_total result
       in Inr (if allResults = [] then JStr location_no_match_text
               else JStr (''Found '' @ show_int (qr_total result) @ '' properties in that location. Showing ''
                          @ show_nat (min 5 (length allResults)) @ '' of ''
                          @ show_int (qr_total result) @ ''.''),
               allResults, hasMore))"

text \<open>
  \<open>aggregation\<close> (lines 93--107): the kind is \<open>filters.info_type?.[0]\<close> or
  \<open>"total_properties"\<close>; a falsy result keeps the model's default reply.
\<close>

definition aggregation_type :: "jsval \<Rightarrow> jsval" where
  "aggregation_type info = js_or (js_opt_index info 0) (JStr ''total_properties'')"

definition aggregation_reply :: "chat_env \<Rightarrow> parsed_query \<Rightarrow> exn + (jsval \<times> jsval list \<times> bool)" where
  "aggregation_reply env pq =
     bindE (js_get (pq_filters pq) ''info_type'') (\<lambda>info.
       let aggregationType = aggregation_type info
       in bindE (aggregation_data env aggregationType) (\<lambda>ar.
         if js_truthy ar then
           bindE (js_get ar ''type'') (\<lambda>ty.
           bindE (js_get ar ''name'') (\<lambda>nm.
           bindE (js_get ar ''count'') (\<lambda>cnt.
             if ty = JStr ''owner_with_most_properties'' \<or> js_truthy nm
             then Inr (JStr (js_to_string nm @ '' has the most properties with ''
                             @ js_to_string cnt @ '' properties.''), [], False)
             else bindE (js_replace_underscores aggregationType) (\<lambda>kind.
                    Inr (JStr (''There are '' @ js_to_string cnt @ '' '' @ kind @ ''.''), [], False)))))
         else Inr (pq_response_text pq, [], False)))"

text \<open>\<open>metadata\<close> (lines 108--112).\<close>

definition metadata_reply :: "schema_attr list \<Rightarrow> jsval" where
  "metadata_reply schema =
     JStr (''I have information about '' @ show_nat (length schema)
           @ '' property attributes including: '' @ join_with '', '' (map displayName schema)
           @ ''. You can ask me about any property or get information like locations, owners, and amenities.'')"

text \<open>The \<open>if\<close>/\<open>else if\<close> chain on the intent (lines 59--112).\<close>

definition dispatch_intent ::
  "chat_env \<Rightarrow> schema_attr list \<Rightarrow> parsed_query \<Rightarrow> int \<Rightarrow> exn + (jsval \<times> jsval list \<times> bool)" where
  "dispatch_intent env schema pq offset =
     (if pq_intent pq = JStr ''property_lookup'' then property_lookup_reply env pq offset
      else if pq_intent pq = JStr ''location_filter'' then location_filter_reply env pq offset
      else if pq_intent pq = JStr ''aggregation'' then aggregation_reply env pq
      else if pq_intent pq = JStr ''metadata'' then Inr (metadata_reply schema, [], False)
      else Inr (pq_response_text pq, [], False))"

text \<open>\<open>`${responseText}\n\n${formattedResults}`.trim()\<close>\<close>

definition reply_content :: "jsval \<Rightarrow> string \<Rightarrow> string" where
  "reply_content responseText formattedResults =
     js_trim (js_to_string responseText @ ''\<newline>\<newline>'' @ formattedResults)"

text \<open>\<open>formattedResults\<close> (lines 115--118): a table only for a non-empty page.\<close>

definition format_results :: "jsval list \<Rightarrow> exn + string" where
  "format_results allResults =
     (if allResults = [] then Inr [] else format_properties_table allResults)"

definition assistant_row :: "jsval \<Rightarrow> parsed_query \<Rightarrow> string \<Rightarrow> jsval list \<Rightarrow> bool \<Rightarrow> int \<Rightarrow> msg_row" where
  "assistant_row conversationId pq text allResults hasMore offset =
     \<lparr>conversation_id = conversationId, msg_role = RoleAssistant, content = JStr text,
      metadata = Some \<lparr>md_intent = pq_intent pq, full_results_data = allResults,
                       has_more = hasMore, current_offset = offset,
                       total_results = length allResults\<rparr>\<rparr>"

section \<open>The handler\<close>

text \<open>\<open>offset = 0\<close> in the destructuring of the body (line 29).\<close>

definition request_offset :: "chat_body \<Rightarrow> int" where
  "request_offset body = (case body_offset body of None \<Rightarrow> 0 | Some n \<Rightarrow> n)"

definition user_row :: "jsval \<Rightarrow> jsval \<Rightarrow> msg_row" where
  "user_row conversationId message =
     \<lparr>conversation_id = conversationId, msg_role = RoleUser, content = message, metadata = None\<rparr>"

text \<open>
  The part of the turn after the user's message is saved (lines 49--151): schema, the
  language model, the intent's query, the table, and the assistant's message.
\<close>

definition answer_turn :: "chat_env \<Rightarrow> jsval \<Rightarrow> jsval \<Rightarrow> int \<Rightarrow> chat_response chat_m" where
  "answer_turn env message conversationId offset =
     bindS (liftS (properties_schema env)) (\<lambda>schema.
     bindS (liftS (parse_and_generate env message (schema_documentation env schema))) (\<lambda>pq.
     bindS (liftS (dispatch_intent env schema pq offset)) (\<lambda>(responseText, allResults, hasMore).
     bindS (liftS (format_results allResults)) (\<lambda>formattedResults.
       let text = reply_content responseText formattedResults;
           row = assistant_row conversationId pq text allResults hasMore offset
       in bindS (insert_message env row) (\<lambda>assistantError.
          if assistantError \<noteq> None
          then bindS (log_error (''Error saving assistant message: '' @ the assistantError))
                 (\<lambda>_. returnS (ErrorResponse 500 ''Error saving message''))
          else returnS (ChatReply row text hasMore offset))))))"

text \<open>The \<open>try\<close> block (lines 14--151).\<close>

definition chat_turn :: "chat_env \<Rightarrow> chat_response chat_m" where
  "chat_turn env =
     bindS (liftS (auth_user env)) (\<lambda>user.
     if user = None then returnS (ErrorResponse 401 ''Unauthorized - Please log in'')
     else bindS (liftS (request_json env)) (\<lambda>body.
       let message = body_message body;
           conversationId = body_conversationId body;
           offset = request_offset body
       in if \<not> js_truthy message \<or> \<not> js_truthy conversationId
          then returnS (ErrorResponse 400 ''Missing message or conversationId'')
          else bindS (insert_message env (user_row conversationId message)) (\<lambda>messageError.
               bindS (if messageError \<noteq> None
                      then log_error (''Error saving user message: '' @ the messageError)
                      else returnS ()) (\<lambda>_.
               answer_turn env message conversationId offset))))"

text \<open>\<open>POST\<close> with its \<open>catch\<close> (lines 13--159).\<close>

definition internal_error :: "exn \<Rightarrow> chat_state \<Rightarrow> chat_response \<times> chat_state" where
  "internal_error e s =
     (ErrorResponse 500 ''Internal server error'',
      s\<lparr>server_log := server_log s @ [''Error in chat endpoint:'']\<rparr>)"

definition chat_post :: "chat_env \<Rightarrow> chat_state \<Rightarrow> chat_response \<times> chat_state" where
  "chat_post env = catchS (chat_turn env) internal_error"

section \<open>A sample environment\<close>

text \<open>
  A concrete environment and state on which the theorems below are instantiated: a
  signed-in user asks for properties, the model classifies it as a lookup, the executor
  has twelve matches and returns one record, and every insert succeeds.
\<close>

definition sample_env :: chat_env where
  "sample_env =
     \<lparr>auth_user = Inr (Some ''user-1''),
      request_json = Inr \<lparr>body_message = JStr ''Show properties'',
                          body_conversationId = JStr ''conv-1'', body_offset = None\<rparr>,
      db_insert = (\<lambda>row msgs. Inserted),
      properties_schema = Inr [\<lparr>internalName = ''name'', displayName = ''Name''\<rparr>,
                               \<lparr>internalName = ''owner'', displayName = ''Owner''\<rparr>],
      schema_documentation = (\<lambda>schema. join_with '', '' (map internalName schema)),
      parse_and_generate = (\<lambda>m doc. Inr \<lparr>pq_intent = JStr ''property_lookup'',
                                          pq_filters = JObj [], pq_response_text = JStr ''Here''\<rparr>),
      properties_with_fallback = (\<lambda>f off lim.
        Inr \<lparr>qr_properties = [JObj [(''name'', JStr ''A'')]], qr_total = 12\<rparr>),
      aggregation_data = (\<lambda>k. Inr (JObj [(''count'', JNum 42)]))\<rparr>"

definition sample_state :: chat_state where
  "sample_state = \<lparr>messages = [], server_log = []\<rparr>"

section \<open>Lemmas on the handler's steps\<close>

lemma insert_message_Inserted:
  "db_insert env row (messages s) = Inserted \<Longrightarrow>
   insert_message env row s = (Inr None, s\<lparr>messages := messages s @ [row]\<rparr>)"
  by (simp add: insert_message_def)

lemma insert_message_InsertError:
  "db_insert env row (messages s) = InsertError err \<Longrightarrow>
   insert_message env row s = (Inr (Some err), s)"
  by (simp add: insert_message_def)

lemma insert_message_InsertRejected:
  "db_insert env row (messages s) = InsertRejected err \<Longrightarrow>
   insert_message env row s = (Inl (Rejected err), s)"
  by (simp add: insert_message_def)

lemmas handler_unfold = chat_post_def chat_turn_def est_simps insert_message_def log_error_def
  Let_def internal_error_def

lemmas handler_splits = sum.splits prod.splits if_splits insert_result.splits

text \<open>What a reply of the answering half of the turn tells about each step.\<close>

lemma answer_turn_reply:
  assumes "answer_turn env m c off s = (Inr (ChatReply row text hm off'), s')"
  shows "\<exists>schema pq rt rs tbl.
    properties_schema env = Inr schema \<and>
    parse_and_generate env m (schema_documentation env schema) = Inr pq \<and>
    dispatch_intent env schema pq off = Inr (rt, rs, hm) \<and>
    format_results rs = Inr tbl \<and>
    text = reply_content rt tbl \<and> row = assistant_row c pq text rs hm off \<and> off' = off \<and>
    db_insert env row (messages s) = Inserted \<and>
    s' = s\<lparr>messages := messages s @ [row]\<rparr>"
  using assms
  by (auto simp: answer_turn_def handler_unfold split: handler_splits)

lemma answer_turn_error:
  assumes "answer_turn env m c off s = (Inr (ErrorResponse n msg), s')"
  shows "n = 500 \<and> msg = ''Error saving message'' \<and> messages s' = messages s"
  using assms
  by (auto simp: answer_turn_def handler_unfold split: handler_splits)

lemma answer_turn_throws:
  assumes "answer_turn env m c off s = (Inl e, s')"
  shows "s' = s"
  using assms
  by (auto simp: answer_turn_def handler_unfold split: handler_splits)

text \<open>After a successful save of the user's message the turn goes on with the answer.\<close>

lemma chat_post_user_saved:
  assumes "auth_user env = Inr (Some u)" and "request_json env = Inr body"
    and "js_truthy (body_message body)" and "js_truthy (body_conversationId body)"
    and "db_insert env (user_row (body_conversationId body) (body_message body)) (messages s) = Inserted"
  shows "chat_post env s =
    catchS (answer_turn env (body_message body) (body_conversationId body) (request_offset body))
      internal_error
      (s\<lparr>messages := messages s @ [user_row (body_conversationId body) (body_message body)]\<rparr>)"
  using assms
  by (simp add: handler_unfold insert_message_Inserted catchS_def)

text \<open>A reply tells which answer the environment gave at each step.\<close>

lemma chat_post_reply_trace:
  assumes "chat_post env s = (ChatReply row text hm off, s')"
  shows "\<exists>body schema pq rt rs tbl. request_json env = Inr body \<and> properties_schema env = Inr schema \<and>
    parse_and_generate env (body_message body) (schema_documentation env schema) = Inr pq \<and>
    dispatch_intent env schema pq (request_offset body) = Inr (rt, rs, hm) \<and>
    format_results rs = Inr tbl \<and> text = reply_content rt tbl \<and>
    row = assistant_row (body_conversationId body) pq text rs hm (request_offset body) \<and>
    off = request_offset body"
  using assms
  by (auto simp: handler_unfold split: handler_splits dest!: answer_turn_reply)

text \<open>The branches that query a page decide the results and the paging flag from the executor.\<close>

lemma dispatch_paged:
  assumes "pq_intent pq = JStr ''property_lookup'' \<or> pq_intent pq = JStr ''location_filter''"
    and "dispatch_intent env schema pq off = Inr (rt, rs, hm)"
  shows "\<exists>r. properties_with_fallback env (pq_filters pq) off 5 = Inr r \<and>
    rs = qr_properties r \<and> hm = (off + 5 < qr_total r)"
  using assms
  by (auto simp: dispatch_intent_def property_lookup_reply_def location_filter_reply_def
      bindE_eq_Inr_iff Let_def)

lemma reply_row_metadata:
  assumes "row = assistant_row c pq text rs hm off" and "metadata row = Some md"
  shows "md = \<lparr>md_intent = pq_intent pq, full_results_data = rs, has_more = hm,
                current_offset = off, total_results = length rs\<rparr>"
  using assms by (simp add: assistant_row_def)

lemmas sample_eval = sample_env_def sample_state_def request_offset_def user_row_def
  dispatch_intent_def property_lookup_reply_def format_results_def format_properties_table_def
  property_row_def md_line_def js_join_def table_headers_def reply_content_def assistant_row_def
  show_eval js_trim_def js_space_def

section \<open>Authentication and validation\<close>

text \<open>
  C1: without a signed-in user the handler answers 401 with
  \<open>"Unauthorized - Please log in"\<close> and leaves the state as it was: no message is
  written and nothing is logged.
\<close>

theorem chat_post_unauthorized:
  assumes "auth_user env = Inr None"
  shows "chat_post env s = (ErrorResponse 401 ''Unauthorized - Please log in'', s)"
  using assms by (simp add: handler_unfold)

theorem chat_post_unauthorized_witness:
  "chat_post (sample_env\<lparr>auth_user := Inr None\<rparr>) sample_state =
     (ErrorResponse 401 ''Unauthorized - Please log in'', sample_state)"
  using chat_post_unauthorized [of "sample_env\<lparr>auth_user := Inr None\<rparr>" sample_state]
  by simp

text \<open>
  C2: a signed-in request whose \<open>message\<close> or \<open>conversationId\<close> is missing or falsy
  is answered 400 with \<open>"Missing message or conversationId"\<close>, and nothing is written.
\<close>

theorem chat_post_bad_request:
  assumes "auth_user env = Inr (Some u)" and "request_json env = Inr body"
    and "\<not> js_truthy (body_message body) \<or> \<not> js_truthy (body_conversationId body)"
  shows "chat_post env s = (ErrorResponse 400 ''Missing message or conversationId'', s)"
  using assms by (auto simp: handler_unfold)

theorem chat_post_bad_request_witness:
  "chat_post (sample_env\<lparr>request_json := Inr \<lparr>body_message = JStr [],
       body_conversationId = JStr ''conv-1'', body_offset = None\<rparr>\<rparr>) sample_state =
     (ErrorResponse 400 ''Missing message or conversationId'', sample_state)"
  using chat_post_bad_request [of "sample_env\<lparr>request_json := Inr \<lparr>body_message = JStr [],
       body_conversationId = JStr ''conv-1'', body_offset = None\<rparr>\<rparr>" "''user-1''"]
  by (simp add: sample_env_def)

section \<open>Writes of a turn\<close>

text \<open>
  C3: a turn that replies has appended the assistant's message, whose content is the
  reply text and whose offset is the request's, right after the user's message; the
  user's message is missing only when its insert returned an error.
\<close>

theorem chat_post_reply_messages:
  assumes "chat_post env s = (ChatReply row text hm off, s')"
  shows "\<exists>body. request_json env = Inr body \<and> off = request_offset body \<and>
    content row = JStr text \<and> msg_role row = RoleAssistant \<and>
    (messages s' = messages s @ [user_row (body_conversationId body) (body_message body), row] \<or>
     (messages s' = messages s @ [row] \<and>
      (\<exists>err. db_insert env (user_row (body_conversationId body) (body_message body)) (messages s)
               = InsertError err)))"
  using assms
  by (auto simp: handler_unfold assistant_row_def split: handler_splits dest!: answer_turn_reply)

theorem chat_post_reply_messages_witness:
  "\<exists>row text hm off s'. chat_post sample_env sample_state = (ChatReply row text hm off, s') \<and>
    (\<exists>body. request_json sample_env = Inr body \<and> off = request_offset body \<and>
    content row = JStr text \<and> msg_role row = RoleAssistant \<and>
    (messages s' = messages sample_state @ [user_row (body_conversationId body) (body_message body), row] \<or>
     (messages s' = messages sample_state @ [row] \<and>
      (\<exists>err. db_insert sample_env (user_row (body_conversationId body) (body_message body))
                (messages sample_state) = InsertError err))))"
proof -
  have "\<exists>row text hm off s'. chat_post sample_env sample_state = (ChatReply row text hm off, s')"
    by (simp add: sample_eval handler_unfold answer_turn_def, blast)
  then obtain row rt hm ofs s' where
    ev: "chat_post sample_env sample_state = (ChatReply row rt hm ofs, s')"
    by blast
  show ?thesis
    by ((rule exI)+, rule conjI [OF ev chat_post_reply_messages [OF ev]])
qed

text \<open>
  C4: an error response never stores an assistant message: the table is unchanged, or
  it holds the user's message of this request and nothing else.
\<close>

theorem chat_post_error_no_assistant_row:
  assumes "chat_post env s = (ErrorResponse n msg, s')"
  shows "messages s' = messages s \<or>
    (\<exists>body. request_json env = Inr body \<and>
       messages s' = messages s @ [user_row (body_conversationId body) (body_message body)])"
  using assms
  by (auto simp: handler_unfold split: handler_splits dest!: answer_turn_error answer_turn_throws)

theorem chat_post_error_no_assistant_row_witness:
  "chat_post (sample_env\<lparr>aggregation_data := (\<lambda>k. Inl (Rejected ''down'')),
      parse_and_generate := (\<lambda>m d. Inr \<lparr>pq_intent = JStr ''aggregation'', pq_filters = JObj [],
                                         pq_response_text = JStr ''Here''\<rparr>)\<rparr>) sample_state =
     (ErrorResponse 500 ''Internal server error'',
      sample_state\<lparr>messages := [user_row (JStr ''conv-1'') (JStr ''Show properties'')],
                   server_log := [''Error in chat endpoint:'']\<rparr>) \<and>
   messages (sample_state\<lparr>messages := [user_row (JStr ''conv-1'') (JStr ''Show properties'')],
                   server_log := [''Error in chat endpoint:'']\<rparr>) = [user_row (JStr ''conv-1'') (JStr ''Show properties'')]"
proof -
  let ?env = "sample_env\<lparr>aggregation_data := (\<lambda>k. Inl (Rejected ''down'')),
      parse_and_generate := (\<lambda>m d. Inr \<lparr>pq_intent = JStr ''aggregation'', pq_filters = JObj [],
                                         pq_response_text = JStr ''Here''\<rparr>)\<rparr>"
  have ev: "chat_post ?env sample_state =
     (ErrorResponse 500 ''Internal server error'',
      sample_state\<lparr>messages := [user_row (JStr ''conv-1'') (JStr ''Show properties'')],
                   server_log := [''Error in chat endpoint:'']\<rparr>)"
    by (simp add: sample_eval handler_unfold answer_turn_def aggregation_reply_def aggregation_type_def)
  from chat_post_error_no_assistant_row [OF ev] ev show ?thesis
    by (simp add: sample_state_def)
qed

section \<open>Paging and the texts of each intent\<close>

text \<open>
  C8: for a lookup or location reply, the page asked of the executor starts at the
  request's offset and holds five records; \<open>hasMore\<close> is \<open>offset + 5 < total\<close>; the stored
  metadata records that flag, the offset and the page itself, whose length is
  \<open>total_results\<close>.
\<close>

theorem chat_post_paging:
  assumes "chat_post env s = (ChatReply row text hm off, s')"
    and "metadata row = Some md"
    and "md_intent md = JStr ''property_lookup'' \<or> md_intent md = JStr ''location_filter''"
  shows "\<exists>filters r. properties_with_fallback env filters off 5 = Inr r \<and>
    hm = (off + 5 < qr_total r) \<and> has_more md = hm \<and> current_offset md = off \<and>
    full_results_data md = qr_properties r \<and> total_results md = length (qr_properties r)"
proof -
  from chat_post_reply_trace [OF assms(1)] obtain body schema pq rt rs tbl where
    disp: "dispatch_intent env schema pq (request_offset body) = Inr (rt, rs, hm)" and
    row: "row = assistant_row (body_conversationId body) pq text rs hm (request_offset body)" and
    off: "off = request_offset body"
    by blast
  from reply_row_metadata [OF row assms(2)] off have md:
    "md = \<lparr>md_intent = pq_intent pq, full_results_data = rs, has_more = hm,
           current_offset = off, total_results = length rs\<rparr>"
    by simp
  with assms(3) have "pq_intent pq = JStr ''property_lookup'' \<or> pq_intent pq = JStr ''location_filter''"
    by simp
  from dispatch_paged [OF this disp] md off show ?thesis by auto
qed

theorem chat_post_paging_witness:
  "\<exists>row text hm off s' md. chat_post sample_env sample_state = (ChatReply row text hm off, s') \<and>
     metadata row = Some md \<and>
     (md_intent md = JStr ''property_lookup'' \<or> md_intent md = JStr ''location_filter'') \<and>
     (\<exists>filters r. properties_with_fallback sample_env filters off 5 = Inr r \<and>
       hm = (off + 5 < qr_total r) \<and> has_more md = hm \<and> current_offset md = off \<and>
       full_results_data md = qr_properties r \<and> total_results md = length (qr_properties r))"
proof -
  have "\<exists>row text hm off s' md. chat_post sample_env sample_state = (ChatReply row text hm off, s') \<and>
     metadata row = Some md \<and> md_intent md = JStr ''property_lookup''"
    by (simp add: sample_eval handler_unfold answer_turn_def, blast)
  then obtain row rt hm ofs s' md where
    ev: "chat_post sample_env sample_state = (ChatReply row rt hm ofs, s')" and
    md: "metadata row = Some md" and i: "md_intent md = JStr ''property_lookup''"
    by blast
  have i': "md_intent md = JStr ''property_lookup'' \<or> md_intent md = JStr ''location_filter''"
    using i by simp
  show ?thesis
    by ((rule exI)+, (rule conjI [OF ev], rule conjI [OF md],
        rule conjI [OF i' chat_post_paging [OF ev md i']]))
qed

text \<open>
  C9: a lookup or location query whose page is empty because the offset is at or past the
  total answers with the branch's clarification prompt, no results and \<open>hasMore\<close> false.
\<close>

theorem dispatch_no_match:
  assumes "pq_intent pq = JStr ''property_lookup'' \<or> pq_intent pq = JStr ''location_filter''"
    and "properties_with_fallback env (pq_filters pq) off 5 = Inr r"
    and "qr_properties r = []" and "qr_total r \<le> off"
  shows "dispatch_intent env schema pq off =
    Inr (JStr (if pq_intent pq = JStr ''property_lookup'' then lookup_no_match_text
               else location_no_match_text), [], False)"
  using assms
  by (auto simp: dispatch_intent_def property_lookup_reply_def location_filter_reply_def)

theorem dispatch_no_match_witness:
  "dispatch_intent
     (sample_env\<lparr>properties_with_fallback := (\<lambda>f off lim. Inr \<lparr>qr_properties = [], qr_total = 3\<rparr>)\<rparr>)
     [] \<lparr>pq_intent = JStr ''property_lookup'', pq_filters = JObj [], pq_response_text = JUndef\<rparr> 5 =
   Inr (JStr lookup_no_match_text, [], False)"
  using dispatch_no_match [of "\<lparr>pq_intent = JStr ''property_lookup'', pq_filters = JObj [], pq_response_text = JUndef\<rparr>"
      "sample_env\<lparr>properties_with_fallback := (\<lambda>f off lim. Inr \<lparr>qr_properties = [], qr_total = 3\<rparr>)\<rparr>"
      5 "\<lparr>qr_properties = [], qr_total = 3\<rparr>" "[]"]
  by simp

text \<open>
  C10: an aggregation whose result names an entity reports the name and the count:
  \<open>"{name} has the most properties with {count} properties."\<close>
\<close>

theorem dispatch_aggregation_named:
  assumes "pq_intent pq = JStr ''aggregation''"
    and "js_get (pq_filters pq) ''info_type'' = Inr info"
    and "aggregation_data env (aggregation_type info) = Inr (JObj kvs)"
    and "map_of kvs ''name'' = Some (JStr n)" and "n \<noteq> []"
    and "map_of kvs ''count'' = Some (JNum c)"
  shows "dispatch_intent env schema pq off =
    Inr (JStr (n @ '' has the most properties with '' @ show_int c @ '' properties.''), [], False)"
  using assms
  by (simp add: dispatch_intent_def aggregation_reply_def Let_def)

theorem dispatch_aggregation_named_witness:
  "dispatch_intent
     (sample_env\<lparr>aggregation_data := (\<lambda>k. Inr (JObj [(''name'', JStr ''Jane''), (''count'', JNum 7)]))\<rparr>)
     [] \<lparr>pq_intent = JStr ''aggregation'', pq_filters = JObj [], pq_response_text = JUndef\<rparr> 0 =
   Inr (JStr ''Jane has the most properties with 7 properties.'', [], False)"
  using dispatch_aggregation_named [of "\<lparr>pq_intent = JStr ''aggregation'', pq_filters = JObj [], pq_response_text = JUndef\<rparr>"
      JUndef "sample_env\<lparr>aggregation_data := (\<lambda>k. Inr (JObj [(''name'', JStr ''Jane''), (''count'', JNum 7)]))\<rparr>"
      "[(''name'', JStr ''Jane''), (''count'', JNum 7)]" "''Jane''" 7 "[]" 0]
  by (simp add: show_eval)

text \<open>
  C11: an aggregation whose result names no entity reports its count with the kind it
  asked for, underscores turned into spaces: \<open>"There are {count} {kind}."\<close>. The kind
  is the first element of the filters' \<open>info_type\<close> when that is a non-empty string,
  and \<open>total_properties\<close> when it is missing or falsy.
\<close>

theorem dispatch_aggregation_count:
  assumes "pq_intent pq = JStr ''aggregation''"
    and "js_get (pq_filters pq) ''info_type'' = Inr info"
    and "(js_opt_index info 0 = JStr k \<and> k \<noteq> []) \<or>
         (\<not> js_truthy (js_opt_index info 0) \<and> k = ''total_properties'')"
    and "aggregation_data env (JStr k) = Inr (JObj kvs)"
    and "map_of kvs ''name'' = None" and "map_of kvs ''type'' = None"
    and "map_of kvs ''count'' = Some (JNum c)"
  shows "dispatch_intent env schema pq off =
    Inr (JStr (''There are '' @ show_int c @ '' ''
               @ map (\<lambda>ch. if ch = CHR ''_'' then CHR '' '' else ch) k @ ''.''), [], False)"
proof -
  from assms(3) have "aggregation_type info = JStr k"
    by (auto simp: aggregation_type_def)
  with assms show ?thesis
    by (simp add: dispatch_intent_def aggregation_reply_def Let_def)
qed

theorem dispatch_aggregation_count_witness:
  "dispatch_intent
     (sample_env\<lparr>aggregation_data := (\<lambda>k. Inr (JObj [(''count'', JNum 42)]))\<rparr>)
     [] \<lparr>pq_intent = JStr ''aggregation'', pq_filters = JObj [], pq_response_text = JUndef\<rparr> 0 =
   Inr (JStr ''There are 42 total properties.'', [], False)"
  using dispatch_aggregation_count [of "\<lparr>pq_intent = JStr ''aggregation'', pq_filters = JObj [], pq_response_text = JUndef\<rparr>"
      JUndef "''total_properties''" "sample_env\<lparr>aggregation_data := (\<lambda>k. Inr (JObj [(''count'', JNum 42)]))\<rparr>"
      "[(''count'', JNum 42)]" 42 "[]" 0]
  by (simp add: show_eval)

text \<open>
  C12: a kind that is not a string (a number the language model put in
  \<open>info_type\<close>) makes \<open>aggregationType.replace\<close> throw a \<open>TypeError\<close> when the result
  names no entity; the turn then ends in the generic 500.
\<close>

theorem dispatch_aggregation_numeric_kind_throws:
  assumes "pq_intent pq = JStr ''aggregation''"
    and "js_get (pq_filters pq) ''info_type'' = Inr (JArr [JNum k])" and "k \<noteq> 0"
    and "aggregation_data env (JNum k) = Inr (JObj kvs)"
    and "map_of kvs ''name'' = None" and "map_of kvs ''type'' = None"
  shows "\<exists>e. dispatch_intent env schema pq off = Inl (TypeError e)"
  using assms
  by (simp add: dispatch_intent_def aggregation_reply_def aggregation_type_def Let_def)

theorem dispatch_aggregation_numeric_kind_throws_witness:
  "\<exists>e. dispatch_intent
     (sample_env\<lparr>aggregation_data := (\<lambda>k. Inr (JObj [(''count'', JNum 9)]))\<rparr>)
     [] \<lparr>pq_intent = JStr ''aggregation'', pq_filters = JObj [(''info_type'', JArr [JNum 3])],
         pq_response_text = JUndef\<rparr> 0 = Inl (TypeError e)"
  using dispatch_aggregation_numeric_kind_throws [of "\<lparr>pq_intent = JStr ''aggregation'',
      pq_filters = JObj [(''info_type'', JArr [JNum 3])], pq_response_text = JUndef\<rparr>" 3
      "sample_env\<lparr>aggregation_data := (\<lambda>k. Inr (JObj [(''count'', JNum 9)]))\<rparr>" "[(''count'', JNum 9)]" "[]" 0]
  by simp

text \<open>
  C13: a result typed \<open>owner_with_most_properties\<close> without a name is reported as
  \<open>"undefined has the most properties with {count} properties."\<close>
\<close>

theorem dispatch_aggregation_owner_without_name:
  assumes "pq_intent pq = JStr ''aggregation''"
    and "js_get (pq_filters pq) ''info_type'' = Inr info"
    and "aggregation_data env (aggregation_type info) = Inr (JObj kvs)"
    and "map_of kvs ''type'' = Some (JStr ''owner_with_most_properties'')"
    and "map_of kvs ''name'' = None" and "map_of kvs ''count'' = Some (JNum c)"
  shows "dispatch_intent env schema pq off =
    Inr (JStr (''undefined has the most properties with '' @ show_int c @ '' properties.''), [], False)"
  using assms
  by (simp add: dispatch_intent_def aggregation_reply_def Let_def)

theorem dispatch_aggregation_owner_without_name_witness:
  "dispatch_intent
     (sample_env\<lparr>aggregation_data := (\<lambda>k. Inr (JObj [(''type'', JStr ''owner_with_most_properties''),
                                                   (''count'', JNum 4)]))\<rparr>)
     [] \<lparr>pq_intent = JStr ''aggregation'', pq_filters = JObj [], pq_response_text = JUndef\<rparr> 0 =
   Inr (JStr ''undefined has the most properties with 4 properties.'', [], False)"
  using dispatch_aggregation_owner_without_name [of "\<lparr>pq_intent = JStr ''aggregation'', pq_filters = JObj [], pq_response_text = JUndef\<rparr>"
      JUndef "sample_env\<lparr>aggregation_data := (\<lambda>k. Inr (JObj [(''type'', JStr ''owner_with_most_properties''),
                                                   (''count'', JNum 4)]))\<rparr>"
      "[(''type'', JStr ''owner_with_most_properties''), (''count'', JNum 4)]" 4 "[]" 0]
  by (simp add: show_eval)

text \<open>
  C14: the \<open>metadata\<close> intent answers with a text that contains the display name of
  every schema attribute, with no results and \<open>hasMore\<close> false.
\<close>

theorem dispatch_metadata_names:
  assumes "pq_intent pq = JStr ''metadata''" and "a \<in> set schema"
  shows "\<exists>rt. dispatch_intent env schema pq off = Inr (rt, [], False) \<and>
    sublist (displayName a) (js_to_string rt)"
proof -
  from assms(2) have j: "sublist (displayName a) (join_with '', '' (map displayName schema))"
    by (intro sublist_join_with) simp
  have "sublist (displayName a) (js_to_string (metadata_reply schema))"
    unfolding metadata_reply_def js_to_string.simps
    by (rule sublist_append_after, rule sublist_append_after, rule sublist_append_after,
        rule sublist_append_before, rule j)
  moreover from assms(1) have "dispatch_intent env schema pq off = Inr (metadata_reply schema, [], False)"
    by (simp add: dispatch_intent_def)
  ultimately show ?thesis by blast
qed

theorem dispatch_metadata_names_witness:
  "\<exists>rt. dispatch_intent sample_env [\<lparr>internalName = ''name'', displayName = ''Name''\<rparr>,
                                    \<lparr>internalName = ''owner'', displayName = ''Owner''\<rparr>]
          \<lparr>pq_intent = JStr ''metadata'', pq_filters = JObj [], pq_response_text = JUndef\<rparr> 0 =
        Inr (rt, [], False) \<and> sublist ''Owner'' (js_to_string rt)"
  using dispatch_metadata_names [of "\<lparr>pq_intent = JStr ''metadata'', pq_filters = JObj [], pq_response_text = JUndef\<rparr>"
      "\<lparr>internalName = ''owner'', displayName = ''Owner''\<rparr>"
      "[\<lparr>internalName = ''name'', displayName = ''Name''\<rparr>, \<lparr>internalName = ''owner'', displayName = ''Owner''\<rparr>]"
      sample_env 0]
  by simp

section \<open>Error paths and the default reply\<close>

text \<open>
  C6: a rejection after the user's message was saved (here the language model's) is
  answered with the generic 500 \<open>"Internal server error"\<close>; the user's message stays
  stored and the failure is logged.
\<close>

theorem chat_post_parse_rejected:
  assumes "auth_user env = Inr (Some u)" and "request_json env = Inr body"
    and "js_truthy (body_message body)" and "js_truthy (body_conversationId body)"
    and "db_insert env (user_row (body_conversationId body) (body_message body)) (messages s) = Inserted"
    and "properties_schema env = Inr schema"
    and "parse_and_generate env (body_message body) (schema_documentation env schema) = Inl e"
  shows "chat_post env s =
    (ErrorResponse 500 ''Internal server error'',
     s\<lparr>messages := messages s @ [user_row (body_conversationId body) (body_message body)],
       server_log := server_log s @ [''Error in chat endpoint:'']\<rparr>)"
  using assms
  by (simp add: chat_post_user_saved catchS_def answer_turn_def est_simps internal_error_def)

theorem chat_post_parse_rejected_witness:
  "chat_post (sample_env\<lparr>parse_and_generate := (\<lambda>m d. Inl (Rejected ''rate limited''))\<rparr>) sample_state =
    (ErrorResponse 500 ''Internal server error'',
     \<lparr>messages = [user_row (JStr ''conv-1'') (JStr ''Show properties'')],
      server_log = [''Error in chat endpoint:'']\<rparr>)"
  using chat_post_parse_rejected [of "sample_env\<lparr>parse_and_generate := (\<lambda>m d. Inl (Rejected ''rate limited''))\<rparr>"
      "''user-1''" "\<lparr>body_message = JStr ''Show properties'', body_conversationId = JStr ''conv-1'', body_offset = None\<rparr>"
      sample_state]
  by (simp add: sample_env_def sample_state_def)

text \<open>
  C5: when saving the assistant's message returns an error, the turn answers 500
  \<open>"Error saving message"\<close> with no reply payload; the user's message stays stored and the
  failure is logged.
\<close>

theorem chat_post_assistant_not_saved:
  assumes "auth_user env = Inr (Some u)" and "request_json env = Inr body"
    and "js_truthy (body_message body)" and "js_truthy (body_conversationId body)"
    and "db_insert env (user_row (body_conversationId body) (body_message body)) (messages s) = Inserted"
    and "properties_schema env = Inr schema"
    and "parse_and_generate env (body_message body) (schema_documentation env schema) = Inr pq"
    and "dispatch_intent env schema pq (request_offset body) = Inr (rt, rs, hm)"
    and "format_results rs = Inr tbl"
    and "db_insert env
           (assistant_row (body_conversationId body) pq (reply_content rt tbl) rs hm (request_offset body))
           (messages s @ [user_row (body_conversationId body) (body_message body)]) = InsertError err"
  shows "chat_post env s =
    (ErrorResponse 500 ''Error saving message'',
     s\<lparr>messages := messages s @ [user_row (body_conversationId body) (body_message body)],
       server_log := server_log s @ [''Error saving assistant message: '' @ err]\<rparr>)"
  using assms
  by (simp add: chat_post_user_saved catchS_def answer_turn_def est_simps insert_message_def
      log_error_def Let_def)

theorem chat_post_assistant_not_saved_witness:
  "chat_post (sample_env\<lparr>db_insert := (\<lambda>row msgs. if msg_role row = RoleAssistant
                                                    then InsertError ''disk full'' else Inserted)\<rparr>)
     sample_state =
    (ErrorResponse 500 ''Error saving message'',
     \<lparr>messages = [user_row (JStr ''conv-1'') (JStr ''Show properties'')],
      server_log = [''Error saving assistant message: disk full'']\<rparr>)"
proof -
  let ?env = "sample_env\<lparr>db_insert := (\<lambda>row msgs. if msg_role row = RoleAssistant
                                                    then InsertError ''disk full'' else Inserted)\<rparr>"
  let ?body = "\<lparr>body_message = JStr ''Show properties'', body_conversationId = JStr ''conv-1'',
                body_offset = None\<rparr>"
  let ?pq = "\<lparr>pq_intent = JStr ''property_lookup'', pq_filters = JObj [], pq_response_text = JStr ''Here''\<rparr>"
  let ?schema = "[\<lparr>internalName = ''name'', displayName = ''Name''\<rparr>,
                  \<lparr>internalName = ''owner'', displayName = ''Owner''\<rparr>]"
  have disp: "dispatch_intent ?env ?schema ?pq (request_offset ?body) =
      Inr (JStr (''Found 12 property/properties. Showing 1 of 12.''), [JObj [(''name'', JStr ''A'')]], True)"
    by (simp add: sample_eval)
  have fmt: "format_results [JObj [(''name'', JStr ''A'')]] =
      Inr (''| Name | Address | Owner |\<newline>| - | - | - |\<newline>| A | - | - |\<newline>'')"
    by (simp add: sample_eval)
  show ?thesis
    using chat_post_assistant_not_saved [of ?env "''user-1''" ?body sample_state
        ?schema ?pq, where err = "''disk full''",
        OF _ _ _ _ _ _ _ disp fmt]
    by (simp add: sample_env_def sample_state_def assistant_row_def user_row_def)
qed

text \<open>
  C7: a failure to save the user's message is logged and swallowed: the turn goes on to
  answer exactly as it would have, from the state where the message is missing and the
  error is logged.
\<close>

theorem chat_post_user_not_saved:
  assumes "auth_user env = Inr (Some u)" and "request_json env = Inr body"
    and "js_truthy (body_message body)" and "js_truthy (body_conversationId body)"
    and "db_insert env (user_row (body_conversationId body) (body_message body)) (messages s) = InsertError err"
  shows "chat_post env s =
    catchS (answer_turn env (body_message body) (body_conversationId body) (request_offset body))
      internal_error
      (s\<lparr>server_log := server_log s @ [''Error saving user message: '' @ err]\<rparr>)"
  using assms
  by (simp add: handler_unfold insert_message_InsertError catchS_def)

theorem chat_post_user_not_saved_witness:
  "chat_post (sample_env\<lparr>db_insert := (\<lambda>row msgs. if msg_role row = RoleUser
                                                    then InsertError ''duplicate'' else Inserted)\<rparr>)
     sample_state =
   catchS (answer_turn (sample_env\<lparr>db_insert := (\<lambda>row msgs. if msg_role row = RoleUser
                                                    then InsertError ''duplicate'' else Inserted)\<rparr>)
             (JStr ''Show properties'') (JStr ''conv-1'') 0)
     internal_error \<lparr>messages = [], server_log = [''Error saving user message: duplicate'']\<rparr>"
  using chat_post_user_not_saved [of "sample_env\<lparr>db_insert := (\<lambda>row msgs. if msg_role row = RoleUser
                                                    then InsertError ''duplicate'' else Inserted)\<rparr>"
      "''user-1''" "\<lparr>body_message = JStr ''Show properties'', body_conversationId = JStr ''conv-1'',
                    body_offset = None\<rparr>" sample_state "''duplicate''"]
  by (simp add: sample_env_def sample_state_def user_row_def request_offset_def)

text \<open>
  C15: for an intent other than the four handled ones the reply is the language model's
  \<open>response_text\<close>, converted to a string and trimmed, with no table, no results and
  \<open>hasMore\<close> false.
\<close>

theorem chat_post_other_intent:
  assumes "chat_post env s = (ChatReply row text hm off, s')" and "metadata row = Some md"
    and "md_intent md \<notin> {JStr ''property_lookup'', JStr ''location_filter'', JStr ''aggregation'',
                          JStr ''metadata''}"
  shows "\<exists>body schema pq. request_json env = Inr body \<and> properties_schema env = Inr schema \<and>
    parse_and_generate env (body_message body) (schema_documentation env schema) = Inr pq \<and>
    md_intent md = pq_intent pq \<and>
    text = js_trim (js_to_string (pq_response_text pq) @ ''\<newline>\<newline>'') \<and>
    \<not> hm \<and> full_results_data md = []"
proof -
  from chat_post_reply_trace [OF assms(1)] obtain body schema pq rt rs tbl where
    tr: "request_json env = Inr body" "properties_schema env = Inr schema"
      "parse_and_generate env (body_message body) (schema_documentation env schema) = Inr pq" and
    disp: "dispatch_intent env schema pq (request_offset body) = Inr (rt, rs, hm)" and
    fmt: "format_results rs = Inr tbl" and rtext: "text = reply_content rt tbl" and
    row: "row = assistant_row (body_conversationId body) pq text rs hm (request_offset body)"
    by blast
  from reply_row_metadata [OF row assms(2)] have md:
    "md = \<lparr>md_intent = pq_intent pq, full_results_data = rs, has_more = hm,
           current_offset = request_offset body, total_results = length rs\<rparr>" .
  with assms(3) disp have "rt = pq_response_text pq" and "rs = []" and "\<not> hm"
    by (auto simp: dispatch_intent_def)
  with fmt rtext have "text = js_trim (js_to_string (pq_response_text pq) @ ''\<newline>\<newline>'')"
    by (simp add: format_results_def reply_content_def)
  with tr md \<open>rs = []\<close> \<open>\<not> hm\<close> show ?thesis by auto
qed

theorem chat_post_other_intent_witness:
  "\<exists>row text hm off s' md.
     chat_post (sample_env\<lparr>parse_and_generate := (\<lambda>m d. Inr \<lparr>pq_intent = JStr ''other'',
                   pq_filters = JObj [], pq_response_text = JUndef\<rparr>)\<rparr>) sample_state =
       (ChatReply row text hm off, s') \<and> metadata row = Some md \<and>
     md_intent md \<notin> {JStr ''property_lookup'', JStr ''location_filter'', JStr ''aggregation'',
                       JStr ''metadata''} \<and>
     text = ''undefined'' \<and>
     (\<exists>body schema pq. request_json sample_env = Inr body \<and> properties_schema sample_env = Inr schema \<and>
       parse_and_generate (sample_env\<lparr>parse_and_generate := (\<lambda>m d. Inr \<lparr>pq_intent = JStr ''other'',
                   pq_filters = JObj [], pq_response_text = JUndef\<rparr>)\<rparr>)
         (body_message body) (schema_documentation sample_env schema) = Inr pq \<and>
       md_intent md = pq_intent pq \<and>
       text = js_trim (js_to_string (pq_response_text pq) @ ''\<newline>\<newline>'') \<and>
       \<not> hm \<and> full_results_data md = [])"
proof -
  let ?env = "sample_env\<lparr>parse_and_generate := (\<lambda>m d. Inr \<lparr>pq_intent = JStr ''other'',
                   pq_filters = JObj [], pq_response_text = JUndef\<rparr>)\<rparr>"
  have "\<exists>row text hm off s' md. chat_post ?env sample_state = (ChatReply row text hm off, s') \<and>
     metadata row = Some md \<and> md_intent md = JStr ''other'' \<and> text = ''undefined''"
    by (simp add: sample_eval handler_unfold answer_turn_def, blast)
  then obtain row rt hm ofs s' md where
    ev: "chat_post ?env sample_state = (ChatReply row rt hm ofs, s')" and
    md: "metadata row = Some md" and i: "md_intent md = JStr ''other''" and u: "rt = ''undefined''"
    by blast
  have i': "md_intent md \<notin> {JStr ''property_lookup'', JStr ''location_filter'', JStr ''aggregation'',
                              JStr ''metadata''}"
    using i by simp
  have c: "\<exists>body schema pq. request_json ?env = Inr body \<and> properties_schema ?env = Inr schema \<and>
    parse_and_generate ?env (body_message body) (schema_documentation ?env schema) = Inr pq \<and>
    md_intent md = pq_intent pq \<and>
    rt = js_trim (js_to_string (pq_response_text pq) @ ''\<newline>\<newline>'') \<and>
    \<not> hm \<and> full_results_data md = []"
    by (rule chat_post_other_intent [OF ev md i'])
  show ?thesis
    by ((rule exI)+, (rule conjI [OF ev], rule conjI [OF md], rule conjI [OF i'],
        rule conjI [OF u]), use c in simp)
qed

end
