(* ===== verification/Auth_Callback.thy ===== *)
theory Auth_Callback
  imports Js_Values
begin

text \<open>
  \<open>src/src/app/auth/callback/page.tsx\<close>: the page the confirmation e-mail links to.
  Its effect (\<open>handleAuthCallback\<close>, lines 13--43) reads the URL fragment; with a
  fragment it schedules a redirect to the chat after 500 ms inside a \<open>try\<close> whose
  \<open>catch\<close> would redirect to the login page with an error parameter; without one it asks
  the identity provider for the user and redirects to the chat or to the login page,
  a rejection included. The effect is modelled as the navigation it produces, as a
  function of the fragment and of the provider's answer. \<open>setTimeout\<close> with a function
  argument returns a timer id and does not throw, which \<open>js_set_timeout\<close> records.
\<close>

datatype page = ChatPage | LoginPage | LoginPageError string

text \<open>A navigation: \<open>router.push\<close> now, or from a timer after some milliseconds.\<close>

datatype navigation = Push page | PushAfter nat page

text \<open>\<open>setTimeout(f, ms)\<close>: schedules \<open>f\<close>; it returns normally for a function argument.\<close>

definition js_set_timeout :: "nat \<Rightarrow> page \<Rightarrow> exn + navigation" where
  "js_set_timeout ms p = Inr (PushAfter ms p)"

definition auth_callback_effect :: "string \<Rightarrow> exn + string option \<Rightarrow> navigation" where
  "auth_callback_effect hash get_user =
     (if hash \<noteq> []
      then (case js_set_timeout 500 ChatPage of
              Inr nav \<Rightarrow> nav
            | Inl err \<Rightarrow> Push (LoginPageError ''Authentication failed''))
      else (case get_user of
              Inr (Some user) \<Rightarrow> Push ChatPage
            | Inr None \<Rightarrow> Push LoginPage
            | Inl err \<Rightarrow> Push LoginPage))"

text \<open>
  C19: with a fragment the page goes to the chat after 500 ms, whatever the session;
  without one it goes to the chat exactly when the provider reports a user, and to the
  login page otherwise, a rejected session check included.
\<close>

theorem auth_callback_redirect:
  "auth_callback_effect hash get_user =
     (if hash \<noteq> [] then PushAfter 500 ChatPage
      else if get_user \<in> Inr ` Some ` UNIV then Push ChatPage else Push LoginPage)"
  by (auto simp: auth_callback_effect_def js_set_timeout_def split: sum.split option.split)

end
