(* ===== verification/Auth_Login.thy ===== *)
theory Auth_Login
  imports Js_Values
begin

text \<open>
  \<open>src/src/app/auth/login/page.tsx\<close>: the login and sign-up form. Its React state
  (lines 12--17) is the record \<open>login_state\<close>, extended by what the handlers leave
  outstanding: the request sent to the identity provider that has not completed
  (\<open>pending\<close>), the session checks started by the effect (\<open>user_checks\<close>), and the
  paths given to \<open>router.push\<close>. Each handler is one event of \<open>login_step\<close>; an
  \<open>await\<close> splits a handler into the event that sends the request and the event that
  completes it, so that typing, toggling the mode and re-running the effect may come in
  between, as they can in the browser. \<open>login_step\<close> answers \<open>None\<close> for an event the
  page does not allow in that state (a submit while the button is disabled or the form
  invalid, a completion with nothing pending), and \<open>Inl\<close> for an exception that escapes
  the effect and unmounts the page. \<open>login_reachable\<close> is the inductive set of states
  reachable from the initial one.
\<close>

section \<open>State and events\<close>

datatype auth_request = LoginRequest string string | SignUpRequest string string

text \<open>What the identity provider's call gives: an error object, a user, neither, or a rejection.\<close>

datatype auth_outcome = AuthError string | AuthUser | AuthNoUser | AuthThrew

record login_state =
  email :: string
  password :: string
  loading :: bool
  is_sign_up :: bool
  error_msg :: string
  success_msg :: string
  pending :: "auth_request option"
  user_checks :: nat
  pushed :: "string list"

datatype login_event =
    Mount "string option"
  | UserChecked "bool option"
  | TypeEmail string
  | TypePassword string
  | Submit
  | Completed auth_outcome
  | ToggleMode

definition login_init :: login_state where
  "login_init =
     \<lparr>email = [], password = [], loading = False, is_sign_up = False, error_msg = [],
      success_msg = [], pending = None, user_checks = 0, pushed = []\<rparr>"

definition sign_up_success_text :: string where
  "sign_up_success_text =
     ''Sign up successful! Check your email to verify your account. Then log in with your credentials.''"

section \<open>Handlers\<close>

text \<open>
  The effect (lines 20--40): an \<open>error\<close> search parameter that is not empty is decoded
  once more and shown; then the session check starts. \<open>UserChecked\<close> is its completion:
  \<open>Some True\<close> a user, \<open>Some False\<close> none, \<open>None\<close> a rejection, which is only logged.
\<close>

definition login_mount :: "string option \<Rightarrow> login_state \<Rightarrow> exn + login_state" where
  "login_mount urlError st =
     (case urlError of
        Some e \<Rightarrow>
          if e \<noteq> [] then
            (case js_decode_uri_component e of
               Inl ex \<Rightarrow> Inl ex
             | Inr d \<Rightarrow> Inr (st\<lparr>error_msg := d, user_checks := Suc (user_checks st)\<rparr>))
          else Inr (st\<lparr>user_checks := Suc (user_checks st)\<rparr>)
      | None \<Rightarrow> Inr (st\<lparr>user_checks := Suc (user_checks st)\<rparr>))"

definition user_checked :: "bool option \<Rightarrow> login_state \<Rightarrow> login_state" where
  "user_checked r st =
     (let st' = st\<lparr>user_checks := user_checks st - 1\<rparr>
      in if r = Some True then st'\<lparr>pushed := pushed st @ [''/chat'']\<rparr> else st')"

text \<open>
  \<open>handleSubmit\<close> (lines 105--111) with the synchronous start of \<open>handleSignUp\<close>
  (lines 70--73) or \<open>handleLogin\<close> (lines 43--45). The browser fires \<open>onSubmit\<close> only
  when the button is enabled (\<open>disabled={loading}\<close>) and the constraints of the inputs
  hold: a non-empty e-mail that the browser accepts (\<open>email_ok\<close>, the HTML rule for
  \<open>type="email"\<close>, left abstract) and a password of at least 6 characters.
\<close>

definition form_valid :: "(string \<Rightarrow> bool) \<Rightarrow> login_state \<Rightarrow> bool" where
  "form_valid email_ok st \<longleftrightarrow> email st \<noteq> [] \<and> email_ok (email st) \<and> 6 \<le> length (password st)"

definition handle_submit :: "login_state \<Rightarrow> login_state" where
  "handle_submit st =
     (if is_sign_up st
      then st\<lparr>error_msg := [], success_msg := [], loading := True,
              pending := Some (SignUpRequest (email st) (password st))\<rparr>
      else st\<lparr>error_msg := [], loading := True,
              pending := Some (LoginRequest (email st) (password st))\<rparr>)"

text \<open>The rest of \<open>handleLogin\<close> after its \<open>await\<close> (lines 48--66), \<open>finally\<close> included.\<close>

definition login_completed :: "auth_outcome \<Rightarrow> login_state \<Rightarrow> login_state" where
  "login_completed r st =
     (let st' = (case r of
                   AuthError msg \<Rightarrow> st\<lparr>error_msg := msg\<rparr>
                 | AuthUser \<Rightarrow> st\<lparr>pushed := pushed st @ [''/chat'']\<rparr>
                 | AuthNoUser \<Rightarrow> st
                 | AuthThrew \<Rightarrow> st\<lparr>error_msg := ''An error occurred during login''\<rparr>)
      in st'\<lparr>loading := False, pending := None\<rparr>)"

text \<open>The rest of \<open>handleSignUp\<close> after its \<open>await\<close> (lines 76--102).\<close>

definition sign_up_completed :: "auth_outcome \<Rightarrow> login_state \<Rightarrow> login_state" where
  "sign_up_completed r st =
     (let st' = (case r of
                   AuthError msg \<Rightarrow> st\<lparr>error_msg := msg\<rparr>
                 | AuthUser \<Rightarrow> st\<lparr>success_msg := sign_up_success_text, is_sign_up := False,
                                 email := [], password := []\<rparr>
                 | AuthNoUser \<Rightarrow> st
                 | AuthThrew \<Rightarrow> st\<lparr>error_msg := ''An error occurred during sign up''\<rparr>)
      in st'\<lparr>loading := False, pending := None\<rparr>)"

text \<open>Either mode-switch button (lines 177--181 and 191--195).\<close>

definition toggle_mode :: "login_state \<Rightarrow> login_state" where
  "toggle_mode st = st\<lparr>is_sign_up := \<not> is_sign_up st, error_msg := [], success_msg := []\<rparr>"

definition login_step ::
  "(string \<Rightarrow> bool) \<Rightarrow> login_event \<Rightarrow> login_state \<Rightarrow> (exn + login_state) option" where
  "login_step email_ok ev st =
     (case ev of
        Mount urlError \<Rightarrow> Some (login_mount urlError st)
      | UserChecked r \<Rightarrow> if 0 < user_checks st then Some (Inr (user_checked r st)) else None
      | TypeEmail s \<Rightarrow> Some (Inr (st\<lparr>email := s\<rparr>))
      | TypePassword s \<Rightarrow> Some (Inr (st\<lparr>password := s\<rparr>))
      | Submit \<Rightarrow> if \<not> loading st \<and> form_valid email_ok st then Some (Inr (handle_submit st)) else None
      | Completed r \<Rightarrow>
          (case pending st of
             None \<Rightarrow> None
           | Some (LoginRequest e p) \<Rightarrow> Some (Inr (login_completed r st))
           | Some (SignUpRequest e p) \<Rightarrow> Some (Inr (sign_up_completed r st)))
      | ToggleMode \<Rightarrow> Some (Inr (toggle_mode st)))"

inductive login_reachable :: "(string \<Rightarrow> bool) \<Rightarrow> login_state \<Rightarrow> bool" where
  init: "login_reachable email_ok login_init"
| step: "login_reachable email_ok st \<Longrightarrow> login_step email_ok ev st = Some (Inr st') \<Longrightarrow>
         login_reachable email_ok st'"

text \<open>A run of events from a state; it stops at the first event the page does not allow or that throws.\<close>

fun login_run ::
  "(string \<Rightarrow> bool) \<Rightarrow> login_state \<Rightarrow> login_event list \<Rightarrow> (exn + login_state) option" where
  "login_run email_ok st [] = Some (Inr st)"
| "login_run email_ok st (ev # evs) =
     (case login_step email_ok ev st of
        Some (Inr st') \<Rightarrow> login_run email_ok st' evs
      | r \<Rightarrow> r)"

text \<open>The events by which the identity provider confirms a user.\<close>

definition confirmations :: "login_event list \<Rightarrow> nat" where
  "confirmations evs =
     length (filter (\<lambda>ev. ev = Completed AuthUser \<or> ev = UserChecked (Some True)) evs)"

section \<open>The loading flag and the pending request\<close>

lemmas login_handlers = login_step_def login_mount_def user_checked_def handle_submit_def
  login_completed_def sign_up_completed_def toggle_mode_def Let_def

lemmas login_splits = option.splits sum.splits if_splits auth_request.splits auth_outcome.splits

lemma login_step_keeps_loading_inv:
  assumes "login_step email_ok ev st = Some (Inr st')"
    and "loading st \<longleftrightarrow> pending st \<noteq> None"
  shows "loading st' \<longleftrightarrow> pending st' \<noteq> None"
  using assms by (cases ev) (auto simp: login_handlers split: login_splits)

text \<open>The button is disabled exactly while a request is outstanding.\<close>

lemma login_reachable_loading_inv:
  "login_reachable email_ok st \<Longrightarrow> loading st \<longleftrightarrow> pending st \<noteq> None"
proof (induction rule: login_reachable.induct)
  case (init email_ok)
  then show ?case by (simp add: login_init_def)
next
  case (step email_ok st ev st')
  from step.hyps(2) step.IH show ?case by (rule login_step_keeps_loading_inv)
qed

lemma login_step_pushed:
  assumes "login_step email_ok ev st = Some (Inr st')"
  shows "length (pushed st') \<le>
    length (pushed st) + (if ev = Completed AuthUser \<or> ev = UserChecked (Some True) then 1 else 0)"
  using assms by (cases ev) (auto simp: login_handlers split: login_splits)

text \<open>A run of allowed events from a reachable state ends in a reachable state.\<close>

lemma login_run_reachable:
  "login_reachable email_ok st \<Longrightarrow> login_run email_ok st evs = Some (Inr st') \<Longrightarrow>
   login_reachable email_ok st'"
proof (induction evs arbitrary: st)
  case Nil
  then show ?case by simp
next
  case (Cons ev evs)
  from Cons.prems(2) obtain st1 where s1: "login_step email_ok ev st = Some (Inr st1)"
    and r: "login_run email_ok st1 evs = Some (Inr st')"
    by (auto split: option.splits sum.splits)
  from login_reachable.step [OF Cons.prems(1) s1] r show ?case by (rule Cons.IH)
qed

text \<open>The confirmation prompt is set only together with the switch to sign-in mode, and
  the only way back to sign-up mode clears it.\<close>

lemma login_step_keeps_success_inv:
  assumes "login_step email_ok ev st = Some (Inr st')"
    and "success_msg st \<noteq> [] \<longrightarrow> \<not> is_sign_up st \<and> success_msg st = sign_up_success_text"
  shows "success_msg st' \<noteq> [] \<longrightarrow> \<not> is_sign_up st' \<and> success_msg st' = sign_up_success_text"
  using assms by (cases ev) (auto simp: login_handlers split: login_splits)

text \<open>
  C20: in every reachable state of the page at most one request to the identity provider
  is outstanding: while one is pending, a submit is not possible.
\<close>

theorem login_single_request:
  assumes "login_reachable email_ok st" and "pending st \<noteq> None"
  shows "login_step email_ok Submit st = None"
  using login_reachable_loading_inv [OF assms(1)] assms(2)
  by (simp add: login_step_def)

theorem login_single_request_witness:
  "login_reachable (\<lambda>e. CHR ''@'' \<in> set e)
     (handle_submit (login_init\<lparr>email := ''a@b.co'', password := ''secret1''\<rparr>)) \<and>
   pending (handle_submit (login_init\<lparr>email := ''a@b.co'', password := ''secret1''\<rparr>)) \<noteq> None \<and>
   login_step (\<lambda>e. CHR ''@'' \<in> set e) Submit
     (handle_submit (login_init\<lparr>email := ''a@b.co'', password := ''secret1''\<rparr>)) = None"
proof -
  let ?ok = "\<lambda>e. CHR ''@'' \<in> set e"
  have r1: "login_reachable ?ok (login_init\<lparr>email := ''a@b.co''\<rparr>)"
    by (rule login_reachable.step [OF login_reachable.init, where ev = "TypeEmail ''a@b.co''"])
       (simp add: login_step_def)
  have r2: "login_reachable ?ok (login_init\<lparr>email := ''a@b.co'', password := ''secret1''\<rparr>)"
    by (rule login_reachable.step [OF r1, where ev = "TypePassword ''secret1''"])
       (simp add: login_step_def)
  have r3: "login_reachable ?ok (handle_submit (login_init\<lparr>email := ''a@b.co'', password := ''secret1''\<rparr>))"
    by (rule login_reachable.step [OF r2, where ev = Submit])
       (simp add: login_step_def form_valid_def login_init_def)
  have p: "pending (handle_submit (login_init\<lparr>email := ''a@b.co'', password := ''secret1''\<rparr>)) \<noteq> None"
    by (simp add: handle_submit_def)
  from r3 p login_single_request [OF r3 p] show ?thesis by blast
qed

section \<open>Completions and navigation\<close>

text \<open>
  C21: every request to the identity provider completes, whatever its outcome (an error,
  a user, neither, or a rejection caught by the handler), and the \<open>finally\<close> of
  either handler re-enables the button: afterwards nothing is pending, and a submit is
  possible exactly when the form is valid.
\<close>

theorem login_request_completes:
  assumes "pending st \<noteq> None"
  shows "\<exists>st'. login_step email_ok (Completed r) st = Some (Inr st') \<and> pending st' = None \<and>
    (login_step email_ok Submit st' \<noteq> None \<longleftrightarrow> form_valid email_ok st')"
  using assms
  by (cases r) (auto simp: login_handlers form_valid_def split: login_splits)

theorem login_request_completes_witness:
  "\<exists>st'. login_step (\<lambda>e. True) (Completed AuthThrew)
      (handle_submit (login_init\<lparr>is_sign_up := True, email := ''a@b.co'', password := ''secret1''\<rparr>)) =
      Some (Inr st') \<and> pending st' = None \<and>
    (login_step (\<lambda>e. True) Submit st' \<noteq> None \<longleftrightarrow> form_valid (\<lambda>e. True) st')"
  using login_request_completes
    [of "handle_submit (login_init\<lparr>is_sign_up := True, email := ''a@b.co'', password := ''secret1''\<rparr>)"]
  by (simp add: handle_submit_def)

text \<open>
  C22: the sign-up confirmation (\<open>Check your email ...\<close>) is the only success message the
  page ever shows, and it is shown only on the sign-in form: in every reachable state a
  non-empty success message is that text and the page is in login mode.
\<close>

theorem login_confirmation_only_in_sign_in:
  assumes "login_reachable email_ok st" and "success_msg st \<noteq> []"
  shows "\<not> is_sign_up st \<and> success_msg st = sign_up_success_text"
proof -
  from assms(1)
  have "success_msg st \<noteq> [] \<longrightarrow> \<not> is_sign_up st \<and> success_msg st = sign_up_success_text"
  proof (induction rule: login_reachable.induct)
    case (init email_ok)
    then show ?case by (simp add: login_init_def)
  next
    case (step email_ok st ev st')
    from step.hyps(2) step.IH show ?case by (rule login_step_keeps_success_inv)
  qed
  with assms(2) show ?thesis by blast
qed

theorem login_confirmation_only_in_sign_in_witness:
  "login_run (\<lambda>e. True) login_init
     [ToggleMode, TypeEmail ''a@b.co'', TypePassword ''secret1'', Submit, Completed AuthUser] =
   Some (Inr (login_init\<lparr>success_msg := sign_up_success_text\<rparr>)) \<and>
   \<not> is_sign_up (login_init\<lparr>success_msg := sign_up_success_text\<rparr>) \<and>
   success_msg (login_init\<lparr>success_msg := sign_up_success_text\<rparr>) = sign_up_success_text"
proof -
  have run: "login_run (\<lambda>e. True) login_init
     [ToggleMode, TypeEmail ''a@b.co'', TypePassword ''secret1'', Submit, Completed AuthUser] =
   Some (Inr (login_init\<lparr>success_msg := sign_up_success_text\<rparr>))"
    by (simp add: login_handlers form_valid_def login_init_def)
  have reach: "login_reachable (\<lambda>e. True) (login_init\<lparr>success_msg := sign_up_success_text\<rparr>)"
    by (rule login_run_reachable [OF login_reachable.init run])
  have ne: "success_msg (login_init\<lparr>success_msg := sign_up_success_text\<rparr>) \<noteq> []"
    by (simp add: sign_up_success_text_def)
  from run login_confirmation_only_in_sign_in [OF reach ne] show ?thesis by blast
qed

text \<open>
  C23: a confirmed sign-up shows the verification prompt, returns to login mode, clears
  the e-mail and password fields and re-enables the button.
\<close>

theorem login_sign_up_confirmed:
  assumes "pending st = Some (SignUpRequest e p)"
  shows "login_step email_ok (Completed AuthUser) st =
    Some (Inr (st\<lparr>success_msg := sign_up_success_text, is_sign_up := False, email := [],
                  password := [], loading := False, pending := None\<rparr>))"
  using assms by (simp add: login_handlers)

theorem login_sign_up_confirmed_witness:
  "login_step (\<lambda>e. True) (Completed AuthUser)
     (handle_submit (login_init\<lparr>is_sign_up := True, email := ''a@b.co'', password := ''secret1''\<rparr>)) =
   Some (Inr (login_init\<lparr>success_msg := sign_up_success_text, loading := False\<rparr>))"
  using login_sign_up_confirmed [of
      "handle_submit (login_init\<lparr>is_sign_up := True, email := ''a@b.co'', password := ''secret1''\<rparr>)"
      "''a@b.co''" "''secret1''" "\<lambda>e. True"]
  by (simp add: handle_submit_def login_init_def)

text \<open>C24: a confirmed login navigates to \<open>/chat\<close> and re-enables the button.\<close>

theorem login_confirmed_navigates:
  assumes "pending st = Some (LoginRequest e p)"
  shows "login_step email_ok (Completed AuthUser) st =
    Some (Inr (st\<lparr>pushed := pushed st @ [''/chat''], loading := False, pending := None\<rparr>))"
  using assms by (simp add: login_handlers)

theorem login_confirmed_navigates_witness:
  "login_step (\<lambda>e. True) (Completed AuthUser)
     (handle_submit (login_init\<lparr>email := ''a@b.co'', password := ''secret1''\<rparr>)) =
   Some (Inr (login_init\<lparr>email := ''a@b.co'', password := ''secret1'', pushed := [''/chat'']\<rparr>))"
  using login_confirmed_navigates [of
      "handle_submit (login_init\<lparr>email := ''a@b.co'', password := ''secret1''\<rparr>)"
      "''a@b.co''" "''secret1''" "\<lambda>e. True"]
  by (simp add: handle_submit_def login_init_def)

text \<open>
  C25: an error reported by the identity provider, for a login or a sign-up, is shown
  inline as it is; the mode and the navigation are unchanged and the button is enabled.
\<close>

theorem login_provider_error_shown:
  assumes "pending st \<noteq> None"
  shows "\<exists>st'. login_step email_ok (Completed (AuthError msg)) st = Some (Inr st') \<and>
    error_msg st' = msg \<and> \<not> loading st' \<and> pending st' = None \<and>
    is_sign_up st' = is_sign_up st \<and> pushed st' = pushed st"
  using assms by (auto simp: login_handlers split: option.splits auth_request.splits)

theorem login_provider_error_shown_witness:
  "\<exists>st'. login_step (\<lambda>e. True) (Completed (AuthError ''Invalid login credentials''))
      (handle_submit (login_init\<lparr>email := ''a@b.co'', password := ''secret1''\<rparr>)) = Some (Inr st') \<and>
    error_msg st' = ''Invalid login credentials'' \<and> \<not> loading st' \<and> pending st' = None \<and>
    is_sign_up st' = False \<and> pushed st' = []"
  using login_provider_error_shown [of
      "handle_submit (login_init\<lparr>email := ''a@b.co'', password := ''secret1''\<rparr>)" "\<lambda>e. True"
      "''Invalid login credentials''"]
  by (simp add: handle_submit_def login_init_def)

text \<open>
  C26: the page never navigates without the identity provider confirming a user: along
  any run, the paths pushed are at most the confirmed logins and session checks.
\<close>

theorem login_navigation_needs_user:
  assumes "login_run email_ok st evs = Some (Inr st')"
  shows "length (pushed st') \<le> length (pushed st) + confirmations evs"
  using assms
proof (induction evs arbitrary: st)
  case Nil
  then show ?case by simp
next
  case (Cons ev evs)
  from Cons.prems obtain st1 where s1: "login_step email_ok ev st = Some (Inr st1)"
    and r: "login_run email_ok st1 evs = Some (Inr st')"
    by (auto split: option.splits sum.splits)
  from Cons.IH [OF r] login_step_pushed [OF s1] show ?case
    by (auto simp: confirmations_def)
qed

theorem login_navigation_needs_user_witness:
  "login_run (\<lambda>e. True) login_init
     [Mount None, TypeEmail ''a@b.co'', TypePassword ''secret1'', Submit,
      Completed (AuthError ''Invalid login credentials''), UserChecked (Some False)] =
   Some (Inr (login_init\<lparr>email := ''a@b.co'', password := ''secret1'',
                          error_msg := ''Invalid login credentials''\<rparr>)) \<and>
   length (pushed (login_init\<lparr>email := ''a@b.co'', password := ''secret1'',
                               error_msg := ''Invalid login credentials''\<rparr>))
     \<le> length (pushed login_init) +
       confirmations [Mount None, TypeEmail ''a@b.co'', TypePassword ''secret1'', Submit,
                      Completed (AuthError ''Invalid login credentials''), UserChecked (Some False)]"
proof -
  have run: "login_run (\<lambda>e. True) login_init
     [Mount None, TypeEmail ''a@b.co'', TypePassword ''secret1'', Submit,
      Completed (AuthError ''Invalid login credentials''), UserChecked (Some False)] =
   Some (Inr (login_init\<lparr>email := ''a@b.co'', password := ''secret1'',
                          error_msg := ''Invalid login credentials''\<rparr>))"
    by (simp add: login_handlers form_valid_def login_init_def)
  from run login_navigation_needs_user [OF run] show ?thesis by blast
qed

text \<open>
  C27: the \<open>error\<close> search parameter, already decoded by \<open>searchParams.get\<close>, is
  decoded a second time. Any message whose first percent sign does not start an escape
  of two hexadecimal digits, such as \<open>50% off\<close> or \<open>100%\<close>, makes
  \<open>decodeURIComponent\<close> throw a \<open>URIError\<close> out of the effect, which unmounts the page.
\<close>

theorem login_mount_malformed_error_param:
  assumes "CHR ''%'' \<notin> set pre" and "\<forall>h l r. post = h # l # r \<longrightarrow> hex_byte h l = None"
  shows "login_step email_ok (Mount (Some (pre @ CHR ''%'' # post))) st =
           Some (Inl (URIError ''URI malformed''))"
proof -
  have "js_decode_uri_component (pre @ CHR ''%'' # post) = uri_error"
    unfolding js_decode_uri_component_def uri_decode_plain_prefix [OF assms(1)]
      uri_decode_bad_escape [OF assms(2)]
    by (simp add: uri_error_def)
  then show ?thesis
    by (simp add: login_step_def login_mount_def uri_error_def)
qed

theorem login_mount_malformed_error_param_witness:
  "login_step (\<lambda>e. True) (Mount (Some ''50% off'')) login_init =
     Some (Inl (URIError ''URI malformed''))"
proof -
  have "\<forall>h l r. '' off'' = h # l # r \<longrightarrow> hex_byte h l = None"
    by (simp add: hex_byte_def hex_val_def hex_digit_values_def)
  from login_mount_malformed_error_param [of "''50''", OF _ this] show ?thesis by simp
qed

end
