(* ===== verification/Spec2Isabelle.thy ===== *)
theory Spec2Isabelle
  imports Chat_Route Auth_Callback Auth_Login
begin

text \<open>
  \<^bold>\<open>A verification development of the property chat bot.\<close>

  \<^emph>\<open>The program.\<close> The repository is a Next.js application with three source files.
  \<open>src/src/app/api/chat/route.ts\<close> is the only component with control flow: its
  \<open>POST\<close> handler checks the signed-in user, validates the request body, saves the
  user's message, asks a language model to classify the message, runs the query the
  intent calls for, renders a page of results as a markdown table
  (\<open>formatPropertiesTable\<close>), saves the assistant's message with pagination metadata
  and answers with JSON; every rejection inside its \<open>try\<close> becomes a 500.
  \<open>src/src/app/auth/login/page.tsx\<close> and \<open>src/src/app/auth/callback/page.tsx\<close> are
  client pages that delegate sign-in, sign-up and session checks to the identity provider
  and redirect. The schema provider, the language model client, the query executor and
  the Supabase client are imported from \<open>src/lib\<close>, which is not part of the sources:
  the development treats them as an environment of collaborators whose answers are
  arbitrary, so every theorem holds for all of their behaviours.

  \<^emph>\<open>The theories.\<close>
  \<^item> \<open>Prelude\<close>: the exception-state monad (\<open>returnS\<close>, \<open>bindS\<close>, \<open>catchS\<close>)
    in which asynchronous code with one \<open>catch\<close> is written, its pure counterpart
    (\<open>bindE\<close>, \<open>mapE\<close>), \<open>join_with\<close> and its inverse \<open>split_on\<close>, and decimal
    printing (\<open>show_nat\<close>, \<open>show_int\<close>).
  \<^item> \<open>Js_Values\<close>: JSON values (\<open>jsval\<close>) and the JavaScript operations the
    pages and the handler apply to them: truthiness, \<open>||\<close>, property access that throws
    on \<open>null\<close>/\<open>undefined\<close>, \<open>?.[i]\<close>, template-literal and \<open>join\<close> string
    conversion, \<open>trim\<close>, \<open>replace(/_/g, " ")\<close>, and \<open>decodeURIComponent\<close>
    (\<open>uri_decode\<close>, the ECMAScript Decode algorithm on bytes, with its \<open>URIError\<close>
    on a bad escape, an overlong or truncated UTF-8 sequence or a surrogate).
  \<^item> \<open>Table_Format\<close>: \<open>formatPropertiesTable\<close> (route.ts lines 161--182) as
    \<open>format_properties_table\<close>, with an abstract reader \<open>parse_table\<close>. Its
    theorems: the table reads back to the records' cells (a roundtrip), the formatter
    throws exactly on a nullish record, and that an unescaped \<open>|\<close> in any cell gives
    that record's line more cells than the header.
  \<^item> \<open>Chat_Route\<close>: the handler. \<open>chat_env\<close> holds the collaborators, each
    returning a value or a rejection; \<open>chat_state\<close> is the \<open>messages\<close> table in
    insertion order and the server log. \<open>dispatch_intent\<close> is the \<open>if\<close> chain on the
    intent with one definition per branch (\<open>property_lookup_reply\<close>,
    \<open>location_filter_reply\<close>, \<open>aggregation_reply\<close>, \<open>metadata_reply\<close>);
    \<open>answer_turn\<close> is the turn after the user's message is saved; \<open>chat_turn\<close> the
    \<open>try\<close> block; \<open>chat_post\<close> the exported \<open>POST\<close> with its \<open>catch\<close>
    (\<open>internal_error\<close>). Its theorems: 401 and 400 write nothing; a reply appends the
    assistant's message right after the user's; an error never stores an assistant
    message; the paging flag and the stored metadata, the texts of each intent (the
    \<open>total_properties\<close> default of an aggregation included), and the asymmetry between
    the two writes (a failed user insert is logged and the turn goes on; a failed
    assistant insert ends in a 500).
  \<^item> \<open>Auth_Callback\<close>: \<open>handleAuthCallback\<close> of the callback page as
    \<open>auth_callback_effect\<close>, a function from the URL fragment and the answer of the
    session check to the navigation it causes. Its theorem is the redirect table, in
    which the login page with an error parameter does not occur: the \<open>catch\<close> that
    would go there guards only \<open>setTimeout\<close>.
  \<^item> \<open>Auth_Login\<close>: the login page as a step function \<open>login_step\<close> over its
    React state (\<open>login_state\<close>), one event per handler half around each \<open>await\<close>,
    its reachable states as the inductive \<open>login_reachable\<close>, and runs of events as
    \<open>login_run\<close>. Its theorems: \<open>loading\<close> holds exactly while a request is
    pending (by rule induction), so at most one request is outstanding; every pending
    request completes with any outcome and the \<open>finally\<close> re-enables the button; a
    success message is always the sign-up confirmation and shown only in sign-in mode
    (rule induction); a confirmed sign-up returns to sign-in mode; a signed-in user is
    sent to the chat, and only after the provider reports a user; a provider error is
    shown; and any \<open>error\<close> parameter whose first \<open>%\<close> does not start a valid
    escape makes the mount effect throw.

  \<^emph>\<open>Modelling choices.\<close> JavaScript numbers are \<open>int\<close>: offsets and counts stay far
  below \<open>2^53\<close>, so no rounding is modelled; \<open>NaN\<close> and fractions are not. The request's
  \<open>offset\<close> is taken to be a number when present; a string offset would make
  \<open>offset + 5\<close> a concatenation, which is not modelled. Characters are bytes, so only
  ASCII whitespace is trimmed and \<open>decodeURIComponent\<close> yields the UTF-8 bytes it
  validated. Logging is the list of logged prefixes and messages. The insert's
  \<open>.select().single()\<close> returns the row as inserted; columns the database adds are not
  modelled. The browser's e-mail validation of \<open>type="email"\<close> is a parameter
  \<open>email_ok\<close> of the login page, so its theorems hold for every validator. React's
  scheduling is the choice of the next event: every interleaving the browser allows is a
  sequence of \<open>login_step\<close> events. No loop of the sources is unbounded, so no fuel is
  needed; every function is total by structural recursion.

  \<^emph>\<open>Not modelled.\<close> The schema provider, the language model client, the query
  executor and the Supabase client live in \<open>src/lib\<close>, outside the sources; their
  results are arbitrary fields of \<open>chat_env\<close> and of the login events. Rendering (JSX)
  and styling are not modelled; of the login page's output only the state the JSX reads
  is. The chat page that consumes the handler's JSON is not in the sources.

  \<^emph>\<open>Plan.\<close> Further work: the JavaScript \<open>+\<close> on a string \<open>offset\<close>, and Unicode
  whitespace for \<open>trim\<close>.
\<close>

end
